(* ===== verification/Prelude.thy ===== *)
theory Prelude
  imports Main "HOL-Library.Word"
begin

text \<open>
  Shared vocabulary of the smart-lock development: the error monad on \<open>'e + 'a\<close>
  (\<open>Inl\<close> is a thrown JavaScript exception), a fold that stops at the first exception
  (React processing a queue of state updates), JavaScript truthiness of the values the
  sources test, and the named collections the component theories fill.
\<close>

named_theorems render_defs "definitions of rendered views, unfolded by view lemmas"
named_theorems step_defs "definitions of handlers and state updates"

type_synonym js_string = string

subsection \<open>Exceptions as values\<close>

definition sbind :: "'e + 'a \<Rightarrow> ('a \<Rightarrow> 'e + 'b) \<Rightarrow> 'e + 'b" where
  "sbind r f = (case r of Inl e \<Rightarrow> Inl e | Inr a \<Rightarrow> f a)"

subsection \<open>Folding a step that may throw\<close>

text \<open>
  \<open>sfold f xs s\<close> runs \<open>f\<close> over \<open>xs\<close> from \<open>s\<close>; the first exception aborts the rest,
  as an exception thrown while React processes an update queue aborts the render.
\<close>

fun sfold :: "('s \<Rightarrow> 'a \<Rightarrow> 'e + 's) \<Rightarrow> 'a list \<Rightarrow> 's \<Rightarrow> 'e + 's" where
  "sfold f [] s = Inr s"
| "sfold f (x # xs) s = sbind (f s x) (sfold f xs)"

subsection \<open>JavaScript truthiness\<close>

text \<open>
  \<open>!v\<close> for a value that is a string or \<open>null\<close> (\<open>None\<close>): \<open>null\<close> and the empty
  string are falsy, every other string is truthy.
\<close>

fun js_falsy_str :: "js_string option \<Rightarrow> bool" where
  "js_falsy_str None = True"
| "js_falsy_str (Some s) = (s = [])"

subsection \<open>Lemmas\<close>

lemma sbind_Inl [simp]: "sbind (Inl e) f = Inl e"
  by (simp add: sbind_def)

lemma sbind_Inr [simp]: "sbind (Inr a) f = f a"
  by (simp add: sbind_def)

lemma sbind_eq_Inr_iff: "sbind r f = Inr b \<longleftrightarrow> (\<exists>a. r = Inr a \<and> f a = Inr b)"
  by (cases r) simp_all

lemma sbind_eq_Inl_iff:
  "sbind r f = Inl e \<longleftrightarrow> r = Inl e \<or> (\<exists>a. r = Inr a \<and> f a = Inl e)"
  by (cases r) simp_all

lemma sbind_Inr_right [simp]: "sbind r Inr = r"
  by (cases r) simp_all

lemma sbind_assoc: "sbind (sbind r f) g = sbind r (\<lambda>a. sbind (f a) g)"
  by (cases r) simp_all

lemma sfold_Nil_fun [simp]: "sfold f [] = Inr"
  by (rule ext) simp

lemma sfold_append: "sfold f (xs @ ys) s = sbind (sfold f xs s) (sfold f ys)"
proof (induction xs arbitrary: s)
  case Nil
  then show ?case by simp
next
  case (Cons x xs)
  then show ?case by (cases "f s x") simp_all
qed

lemma sfold_single [simp]: "sfold f [x] s = f s x"
  by simp

lemma sfold_invariant:
  assumes "P s" and "\<forall>x \<in> set xs. Q x"
    and step: "\<And>s x s'. P s \<Longrightarrow> Q x \<Longrightarrow> f s x = Inr s' \<Longrightarrow> P s'"
    and "sfold f xs s = Inr s'"
  shows "P s'"
  using assms(1,2,4)
proof (induction xs arbitrary: s)
  case Nil
  then show ?case by simp
next
  case (Cons x xs)
  from Cons.prems(3) obtain t where t: "f s x = Inr t" and rest: "sfold f xs t = Inr s'"
    by (auto simp: sbind_eq_Inr_iff)
  from Cons.prems(2) have "Q x" and "\<forall>y \<in> set xs. Q y" by simp_all
  from step [OF Cons.prems(1) \<open>Q x\<close> t] \<open>\<forall>y \<in> set xs. Q y\<close> rest show ?case
    by (rule Cons.IH)
qed

lemma sfold_total:
  assumes "\<And>s x. \<exists>s'. f s x = Inr s'"
  shows "\<exists>s'. sfold f xs s = Inr s'"
proof (induction xs arbitrary: s)
  case Nil
  then show ?case by simp
next
  case (Cons x xs)
  from assms obtain t where "f s x = Inr t" by blast
  with Cons.IH [of t] show ?case by simp
qed

lemma js_falsy_str_iff: "js_falsy_str v \<longleftrightarrow> v = None \<or> v = Some []"
  by (cases v) simp_all

lemma length_filter_distinct_eq:
  "distinct (map f xs) \<Longrightarrow> length (filter (\<lambda>x. f x = a) xs) = (if a \<in> set (map f xs) then 1 else 0)"
proof (induction xs)
  case Nil
  then show ?case by simp
next
  case (Cons x xs)
  then show ?case by (auto simp: filter_empty_conv)
qed

end
