(* ===== verification/Browser.thy ===== *)
theory Browser
  imports Prelude
begin

text \<open>
  The parts of the browser and of React that the two source files call: the
  \<open>localStorage\<close> object (\<open>getItem\<close>, \<open>setItem\<close>, which throw when storage is blocked
  or full), the console, the two media queries, and the dispatch of a DOM event to the
  handlers of the rendered tree (bubbling from the target towards the root, cut short by
  \<open>stopPropagation\<close>). None of this is code of the repository; it is the environment the
  component theories are stated against, kept as small as the sources need.
\<close>

datatype js_error = SecurityError | QuotaExceededError

datatype storage_access = Storage_ok | Storage_blocked | Storage_full

record browser =
  local_storage :: "js_string \<Rightarrow> js_string option"
  storage_access :: storage_access
  console :: "js_string list"
  prefers_dark :: bool
  viewport_width :: nat

subsection \<open>localStorage\<close>

definition get_item :: "js_string \<Rightarrow> browser \<Rightarrow> js_error + js_string option" where
  "get_item k b =
     (if storage_access b = Storage_blocked then Inl SecurityError
      else Inr (local_storage b k))"

definition set_item :: "js_string \<Rightarrow> js_string \<Rightarrow> browser \<Rightarrow> js_error + browser" where
  "set_item k v b =
     (case storage_access b of
        Storage_blocked \<Rightarrow> Inl SecurityError
      | Storage_full \<Rightarrow> Inl QuotaExceededError
      | Storage_ok \<Rightarrow> Inr (b\<lparr>local_storage := (local_storage b)(k \<mapsto> v)\<rparr>))"

subsection \<open>Console and media queries\<close>

definition console_log :: "js_string \<Rightarrow> browser \<Rightarrow> browser" where
  "console_log msg b = b\<lparr>console := console b @ [msg]\<rparr>"

text \<open>\<open>useMediaQuery('(max-width:768px)')\<close>: the viewport is at most 768 pixels wide.\<close>

definition max_width_768 :: "browser \<Rightarrow> bool" where
  "max_width_768 b \<longleftrightarrow> viewport_width b \<le> 768"

subsection \<open>Event handlers and their effects\<close>

text \<open>
  A handler of the rendered tree, when it runs, does two kinds of things: it calls a
  state setter, which only enqueues an update of type \<open>'u\<close> (React applies the queue after
  the handler returns), and it writes to the console at once. A listener is the list of
  effects of the handlers on one element and whether one of them calls
  \<open>stopPropagation\<close>.
\<close>

datatype 'u effect = Enqueue 'u | Log js_string

type_synonym 'u listener = "'u effect list \<times> bool"

text \<open>Bubbling: the listeners from the target up to the root, until one stops it.\<close>

fun bubble :: "'u listener list \<Rightarrow> 'u effect list" where
  "bubble [] = []"
| "bubble ((es, stop) # ls) = es @ (if stop then [] else bubble ls)"

text \<open>Running the effects of one event: console lines now, updates collected in order.\<close>

fun run_effects :: "'u effect list \<Rightarrow> browser \<Rightarrow> 'u list \<times> browser" where
  "run_effects [] b = ([], b)"
| "run_effects (Enqueue u # es) b = (let (us, b') = run_effects es b in (u # us, b'))"
| "run_effects (Log m # es) b = run_effects es (console_log m b)"

fun enqueued :: "'u effect list \<Rightarrow> 'u list" where
  "enqueued [] = []"
| "enqueued (Enqueue u # es) = u # enqueued es"
| "enqueued (Log m # es) = enqueued es"

fun logged :: "'u effect list \<Rightarrow> js_string list" where
  "logged [] = []"
| "logged (Enqueue u # es) = logged es"
| "logged (Log m # es) = m # logged es"

subsection \<open>Lemmas\<close>

lemma get_item_set_item:
  "set_item k v b = Inr b' \<Longrightarrow> get_item k b' = Inr (Some v)"
  by (auto simp: set_item_def get_item_def split: storage_access.splits)

lemma set_item_frame:
  "set_item k v b = Inr b' \<Longrightarrow>
     console b' = console b \<and> prefers_dark b' = prefers_dark b \<and>
     viewport_width b' = viewport_width b \<and> storage_access b' = storage_access b"
  by (auto simp: set_item_def split: storage_access.splits)

lemma set_item_ok:
  "storage_access b = Storage_ok \<Longrightarrow>
     set_item k v b = Inr (b\<lparr>local_storage := (local_storage b)(k \<mapsto> v)\<rparr>)"
  by (simp add: set_item_def)

lemma set_item_Inr:
  "set_item k v b = Inr b' \<longleftrightarrow>
     storage_access b = Storage_ok \<and> b' = b\<lparr>local_storage := (local_storage b)(k \<mapsto> v)\<rparr>"
  by (auto simp: set_item_def split: storage_access.splits)

lemma set_item_Inl:
  "set_item k v b = Inl e \<longleftrightarrow>
     storage_access b \<noteq> Storage_ok \<and>
     e = (if storage_access b = Storage_blocked then SecurityError else QuotaExceededError)"
  by (auto simp: set_item_def split: storage_access.splits)

lemma run_effects_eq:
  "run_effects es b = (enqueued es, b\<lparr>console := console b @ logged es\<rparr>)"
  by (induction es arbitrary: b rule: enqueued.induct) (simp_all add: console_log_def)

lemma enqueued_append [simp]: "enqueued (xs @ ys) = enqueued xs @ enqueued ys"
  by (induction xs rule: enqueued.induct) simp_all

lemma logged_append [simp]: "logged (xs @ ys) = logged xs @ logged ys"
  by (induction xs rule: logged.induct) simp_all

end
