(* ===== verification/Colour.thy ===== *)
theory Colour
  imports Prelude
begin

text \<open>
  CSS hexadecimal colours, the form every colour literal of the theme in
  \<^verbatim>\<open>src/src/ThemeContext.js\<close> takes (\<open>'#rrggbb'\<close>), read as three 8-bit channels; the
  printer that writes a colour back in lower case; and the luma of a colour (the ITU-R
  BT.601 weights 299, 587 and 114 per mille), by which the theme's text and background
  colours are compared in \<^theory_text>\<open>Theme\<close>. This is how the browser interprets the
  strings the code writes, not code of the repository.
\<close>

type_synonym rgb = "8 word \<times> 8 word \<times> 8 word"

definition hex_val :: "char \<Rightarrow> nat option" where
  "hex_val c =
     (let n = of_char c :: nat in
      if 48 \<le> n \<and> n \<le> 57 then Some (n - 48)
      else if 97 \<le> n \<and> n \<le> 102 then Some (n - 87)
      else if 65 \<le> n \<and> n \<le> 70 then Some (n - 55)
      else None)"

definition hex_byte :: "char \<Rightarrow> char \<Rightarrow> 8 word option" where
  "hex_byte h l =
     (case (hex_val h, hex_val l) of
        (Some a, Some b) \<Rightarrow> Some (of_nat (16 * a + b))
      | _ \<Rightarrow> None)"

fun parse_hex_colour :: "js_string \<Rightarrow> rgb option" where
  "parse_hex_colour [c, r1, r2, g1, g2, b1, b2] =
     (if c = CHR ''#'' then
        (case (hex_byte r1 r2, hex_byte g1 g2, hex_byte b1 b2) of
           (Some r, Some g, Some b) \<Rightarrow> Some (r, g, b)
         | _ \<Rightarrow> None)
      else None)"
| "parse_hex_colour _ = None"

definition hex_digit :: "nat \<Rightarrow> char" where
  "hex_digit n = (if n < 10 then char_of (48 + n) else char_of (87 + n))"

definition print_byte :: "8 word \<Rightarrow> js_string" where
  "print_byte w = [hex_digit (unat w div 16), hex_digit (unat w mod 16)]"

fun print_hex_colour :: "rgb \<Rightarrow> js_string" where
  "print_hex_colour (r, g, b) = CHR ''#'' # print_byte r @ print_byte g @ print_byte b"

fun luma :: "rgb \<Rightarrow> nat" where
  "luma (r, g, b) = 299 * unat r + 587 * unat g + 114 * unat b"

subsection \<open>Lemmas\<close>

lemma hex_val_hex_digit: "n < 16 \<Longrightarrow> hex_val (hex_digit n) = Some n"
  by (auto simp: hex_val_def hex_digit_def Let_def)

lemma hex_byte_print: "hex_byte (hex_digit (unat w div 16)) (hex_digit (unat w mod 16)) = Some w"
proof -
  have "unat w < 256" using unsigned_less [of w, where ?'a = nat] by simp
  then have "unat w div 16 < 16" and "unat w mod 16 < 16" by simp_all
  then have "hex_byte (hex_digit (unat w div 16)) (hex_digit (unat w mod 16)) =
      Some (of_nat (16 * (unat w div 16) + unat w mod 16))"
    by (simp add: hex_byte_def hex_val_hex_digit)
  also have "16 * (unat w div 16) + unat w mod 16 = unat w" by simp
  finally show ?thesis by simp
qed

lemma luma_le: "luma c \<le> 255000"
proof -
  obtain r g b where c: "c = (r, g, b)" by (cases c) auto
  have "unat r \<le> 255" "unat g \<le> 255" "unat b \<le> 255"
    using unsigned_less [of r, where ?'a = nat] unsigned_less [of g, where ?'a = nat] unsigned_less [of b, where ?'a = nat] by simp_all
  then show ?thesis by (simp add: c)
qed

lemma parse_print_hex_colour: "parse_hex_colour (print_hex_colour c) = Some c"
proof -
  obtain r g b where c: "c = (r, g, b)" by (cases c) auto
  show ?thesis by (simp add: c print_byte_def hex_byte_print)
qed

end
