(* ===== verification/Theme.thy ===== *)
theory Theme
  imports Browser Colour
begin

text \<open>
  Model of \<^verbatim>\<open>src/src/ThemeContext.js\<close>: the \<open>ThemeProvider\<close> component's one piece of
  state, the string \<open>mode\<close>; its lazy initialiser, which reads the \<open>'theme'\<close> key of
  \<open>localStorage\<close> and falls back to the \<open>prefers-color-scheme\<close> media query; the updater
  that \<open>toggleTheme\<close> passes to \<open>setMode\<close>, which writes the new mode back to
  \<open>localStorage\<close>; the MUI theme derived from the mode by \<open>createTheme\<close>; and the value the
  context publishes to its consumers. A thrown storage exception is \<open>Inl\<close>.
\<close>

subsection \<open>Mode state\<close>

text \<open>\<open>useState(() => ...)\<close>, lines 9--14.\<close>

definition initial_mode :: "browser \<Rightarrow> js_error + js_string" where
  "initial_mode b =
     sbind (get_item ''theme'' b) (\<lambda>saved_theme.
       Inr (if saved_theme = Some ''dark'' \<or> (js_falsy_str saved_theme \<and> prefers_dark b)
            then ''dark'' else ''light''))"

text \<open>The updater of \<open>toggleTheme\<close>, lines 16--22: new mode, persisted, returned.\<close>

definition toggle_updater :: "js_string \<Rightarrow> browser \<Rightarrow> js_error + js_string \<times> browser" where
  "toggle_updater prev_mode b =
     (let new_mode = (if prev_mode = ''light'' then ''dark'' else ''light'')
      in sbind (set_item ''theme'' new_mode b) (\<lambda>b'. Inr (new_mode, b')))"

subsection \<open>The derived MUI theme\<close>

record palette =
  pal_mode :: js_string
  primary_main :: js_string
  secondary_main :: js_string
  background_default :: js_string
  background_paper :: js_string
  text_primary :: js_string
  text_secondary :: js_string

record style_overrides =
  drawer_paper_bg :: js_string
  drawer_paper_border_right :: js_string
  card_root_bg :: js_string
  app_bar_root_bg :: js_string
  list_item_selected_bg :: js_string

record mui_theme =
  palette :: palette
  components :: style_overrides

text \<open>\<open>useMemo(() => createTheme({...}), [mode])\<close>, lines 24--79.\<close>

definition create_theme :: "js_string \<Rightarrow> mui_theme" where
  "create_theme mode =
     (let dark = (mode = ''dark'') in
      \<lparr>palette =
         \<lparr>pal_mode = mode,
          primary_main = (if dark then ''#1976d2'' else ''#1976d2''),
          secondary_main = (if dark then ''#dc004e'' else ''#dc004e''),
          background_default = (if dark then ''#121212'' else ''#f8f9fa''),
          background_paper = (if dark then ''#1e1e1e'' else ''#ffffff''),
          text_primary = (if dark then ''#ffffff'' else ''#333333''),
          text_secondary = (if dark then ''#b0b0b0'' else ''#666666'')\<rparr>,
       components =
         \<lparr>drawer_paper_bg = (if dark then ''#1a1a1a'' else ''#f8f9fa''),
          drawer_paper_border_right = (if dark then ''1px solid #333'' else ''1px solid #e0e0e0''),
          card_root_bg = (if dark then ''#1e1e1e'' else ''#ffffff''),
          app_bar_root_bg = (if dark then ''#1976d2'' else ''#1976d2''),
          list_item_selected_bg =
            (if dark then ''rgba(25, 118, 210, 0.16)'' else ''rgba(25, 118, 210, 0.08)'')\<rparr>\<rparr>)"

subsection \<open>The context value\<close>

text \<open>
  \<open>{ isDarkMode: mode === 'dark', toggleTheme }\<close>, line 82. Calling \<open>toggleTheme\<close>
  enqueues the updater; the context is polymorphic in how the consumer names that update.
\<close>

record 'u theme_ctx =
  is_dark_mode :: bool
  toggle_theme :: "'u effect list"

definition theme_value :: "'u \<Rightarrow> js_string \<Rightarrow> 'u theme_ctx" where
  "theme_value toggle mode = \<lparr>is_dark_mode = (mode = ''dark''), toggle_theme = [Enqueue toggle]\<rparr>"

subsection \<open>Validity of a mode\<close>

definition valid_mode :: "js_string \<Rightarrow> bool" where
  "valid_mode m \<longleftrightarrow> m = ''light'' \<or> m = ''dark''"

definition other_mode :: "js_string \<Rightarrow> js_string" where
  "other_mode m = (if m = ''light'' then ''dark'' else ''light'')"

subsection \<open>Lemmas\<close>

lemma valid_other_mode [simp]: "valid_mode (other_mode m)"
  by (simp add: valid_mode_def other_mode_def)

lemma other_mode_other_mode [simp]: "valid_mode m \<Longrightarrow> other_mode (other_mode m) = m"
  by (auto simp: valid_mode_def other_mode_def)

lemma other_mode_neq [simp]: "valid_mode m \<Longrightarrow> other_mode m \<noteq> m"
  by (auto simp: valid_mode_def other_mode_def)

lemma toggle_updater_other_mode:
  "toggle_updater m b = sbind (set_item ''theme'' (other_mode m) b) (\<lambda>b'. Inr (other_mode m, b'))"
  by (simp add: toggle_updater_def other_mode_def Let_def)

lemma toggle_updater_Inr:
  "toggle_updater m b = Inr (m', b') \<longleftrightarrow>
     m' = other_mode m \<and> set_item ''theme'' (other_mode m) b = Inr b'"
  by (auto simp: toggle_updater_other_mode sbind_eq_Inr_iff)

lemma initial_mode_Inr:
  "initial_mode b = Inr m \<longleftrightarrow>
     storage_access b \<noteq> Storage_blocked \<and>
     m = (if local_storage b ''theme'' = Some ''dark'' \<or>
             (js_falsy_str (local_storage b ''theme'') \<and> prefers_dark b)
          then ''dark'' else ''light'')"
  by (auto simp: initial_mode_def get_item_def)

lemma initial_mode_valid: "initial_mode b = Inr m \<Longrightarrow> valid_mode m"
  by (auto simp: initial_mode_Inr valid_mode_def)

subsection \<open>Properties of the mode state\<close>

text \<open>
  C15. Toggling on a working storage: from either mode, \<open>toggleTheme\<close>'s updater returns
  the other mode and leaves exactly that string under the key \<open>'theme'\<close>, changing
  nothing else of the browser.
\<close>

theorem toggle_updater_flips:
  assumes "valid_mode m" and "storage_access b = Storage_ok"
  shows "toggle_updater m b = Inr (m', b') \<longleftrightarrow>
           valid_mode m' \<and> m' \<noteq> m \<and>
           b' = b\<lparr>local_storage := (local_storage b)(''theme'' \<mapsto> m')\<rparr>"
proof
  assume "toggle_updater m b = Inr (m', b')"
  with assms show "valid_mode m' \<and> m' \<noteq> m \<and>
      b' = b\<lparr>local_storage := (local_storage b)(''theme'' \<mapsto> m')\<rparr>"
    by (auto simp: toggle_updater_Inr set_item_ok)
next
  assume r: "valid_mode m' \<and> m' \<noteq> m \<and>
      b' = b\<lparr>local_storage := (local_storage b)(''theme'' \<mapsto> m')\<rparr>"
  with assms(1) have "m' = other_mode m"
    by (auto simp: valid_mode_def other_mode_def)
  with r assms(2) show "toggle_updater m b = Inr (m', b')"
    by (simp add: toggle_updater_Inr set_item_ok)
qed

theorem toggle_updater_flips_witness:
  "toggle_updater ''light''
     \<lparr>local_storage = Map.empty, storage_access = Storage_ok, console = [],
      prefers_dark = False, viewport_width = 1024\<rparr> =
   Inr (''dark'', \<lparr>local_storage = [''theme'' \<mapsto> ''dark''], storage_access = Storage_ok,
      console = [], prefers_dark = False, viewport_width = 1024\<rparr>)"
  using toggle_updater_flips [of "''light''"
      "\<lparr>local_storage = Map.empty, storage_access = Storage_ok, console = [],
        prefers_dark = False, viewport_width = 1024\<rparr>" "''dark''"]
  by (simp add: valid_mode_def)

text \<open>
  C16. Persistence round trip: whatever mode a successful toggle returns is the mode the
  initialiser computes on the next load from the storage it left, whatever the system
  colour-scheme preference is by then.
\<close>

theorem toggle_then_reload:
  assumes "toggle_updater m b = Inr (m', b')"
  shows "initial_mode (b'\<lparr>prefers_dark := p\<rparr>) = Inr m'"
proof -
  from assms have m': "m' = other_mode m" and set: "set_item ''theme'' m' b = Inr b'"
    by (auto simp: toggle_updater_Inr)
  from set have "local_storage b' ''theme'' = Some m'" and "storage_access b' \<noteq> Storage_blocked"
    by (auto simp: set_item_def split: storage_access.splits)
  with m' show ?thesis
    by (auto simp: initial_mode_Inr other_mode_def)
qed

theorem toggle_then_reload_witness:
  "toggle_updater ''dark''
     \<lparr>local_storage = Map.empty, storage_access = Storage_ok, console = [],
      prefers_dark = True, viewport_width = 500\<rparr> =
   Inr (''light'', \<lparr>local_storage = [''theme'' \<mapsto> ''light''], storage_access = Storage_ok,
      console = [], prefers_dark = True, viewport_width = 500\<rparr>) \<and>
   initial_mode \<lparr>local_storage = [''theme'' \<mapsto> ''light''], storage_access = Storage_ok,
      console = [], prefers_dark = True, viewport_width = 500\<rparr> = Inr ''light''"
proof -
  let ?b = "\<lparr>local_storage = Map.empty, storage_access = Storage_ok, console = [],
      prefers_dark = True, viewport_width = 500\<rparr>"
  let ?b' = "\<lparr>local_storage = [''theme'' \<mapsto> ''light''], storage_access = Storage_ok,
      console = [], prefers_dark = True, viewport_width = 500\<rparr>"
  have t: "toggle_updater ''dark'' ?b = Inr (''light'', ?b')"
    by (simp add: toggle_updater_def set_item_def Let_def)
  have "initial_mode (?b'\<lparr>prefers_dark := True\<rparr>) = Inr ''light''"
    by (rule toggle_then_reload [OF t])
  with t show ?thesis by simp
qed

text \<open>
  C17. A stored preference wins: when \<open>localStorage\<close> can be read and holds a non-empty
  string under \<open>'theme'\<close>, the initial mode is \<open>'dark'\<close> exactly when that string is
  \<open>'dark'\<close>, and the system preference is not consulted (a stored \<open>'Dark'\<close> or any other
  non-empty string gives \<open>'light'\<close>).
\<close>

theorem initial_mode_stored:
  assumes "storage_access b \<noteq> Storage_blocked"
    and "local_storage b ''theme'' = Some s" and "s \<noteq> []"
  shows "initial_mode b = Inr (if s = ''dark'' then ''dark'' else ''light'')"
  using assms by (simp add: initial_mode_Inr)

theorem initial_mode_stored_witness:
  "initial_mode \<lparr>local_storage = [''theme'' \<mapsto> ''Dark''], storage_access = Storage_ok,
      console = [], prefers_dark = True, viewport_width = 500\<rparr> = Inr ''light''"
  using initial_mode_stored [of "\<lparr>local_storage = [''theme'' \<mapsto> ''Dark''],
      storage_access = Storage_ok, console = [], prefers_dark = True, viewport_width = 500\<rparr>"
      "''Dark''"]
  by simp

text \<open>
  C18. Fallback to the system preference: when \<open>localStorage\<close> can be read and holds
  nothing or the empty string under \<open>'theme'\<close>, the initial mode follows the
  \<open>prefers-color-scheme: dark\<close> media query.
\<close>

theorem initial_mode_fallback:
  assumes "storage_access b \<noteq> Storage_blocked"
    and "local_storage b ''theme'' = None \<or> local_storage b ''theme'' = Some []"
  shows "initial_mode b = Inr (if prefers_dark b then ''dark'' else ''light'')"
  using assms by (auto simp: initial_mode_Inr)

theorem initial_mode_fallback_witness:
  "initial_mode \<lparr>local_storage = [''theme'' \<mapsto> []], storage_access = Storage_ok,
      console = [], prefers_dark = True, viewport_width = 500\<rparr> = Inr ''dark''"
  using initial_mode_fallback [of "\<lparr>local_storage = [''theme'' \<mapsto> []],
      storage_access = Storage_ok, console = [], prefers_dark = True, viewport_width = 500\<rparr>"]
  by simp

text \<open>
  C19. Storage errors are not caught: reading the preference throws \<open>SecurityError\<close> when
  storage is blocked, and the toggle's write throws \<open>SecurityError\<close> or
  \<open>QuotaExceededError\<close> whenever storage is not writable; no mode is produced.
\<close>

theorem theme_storage_errors:
  "(storage_access b = Storage_blocked \<longrightarrow> initial_mode b = Inl SecurityError) \<and>
   (storage_access b \<noteq> Storage_ok \<longrightarrow>
      toggle_updater m b =
        Inl (if storage_access b = Storage_blocked then SecurityError else QuotaExceededError))"
proof (intro conjI impI)
  assume "storage_access b = Storage_blocked"
  then show "initial_mode b = Inl SecurityError"
    by (simp add: initial_mode_def get_item_def)
next
  assume "storage_access b \<noteq> Storage_ok"
  then have "set_item ''theme'' (other_mode m) b =
      Inl (if storage_access b = Storage_blocked then SecurityError else QuotaExceededError)"
    by (simp add: set_item_Inl)
  then show "toggle_updater m b =
      Inl (if storage_access b = Storage_blocked then SecurityError else QuotaExceededError)"
    by (simp add: toggle_updater_other_mode)
qed

theorem theme_storage_errors_witness:
  "toggle_updater ''dark'' \<lparr>local_storage = Map.empty, storage_access = Storage_full,
      console = [], prefers_dark = True, viewport_width = 500\<rparr> = Inl QuotaExceededError"
  using theme_storage_errors [of "\<lparr>local_storage = Map.empty, storage_access = Storage_full,
      console = [], prefers_dark = True, viewport_width = 500\<rparr>" "''dark''"]
  by simp

text \<open>
  C22. The updater's side effect is idempotent: React may call a \<open>setMode\<close> updater twice
  on the same previous state (eagerly when the update is enqueued and again while
  rendering, or twice under StrictMode); the second call on the browser the first one left
  returns the same mode and leaves the same browser, so the write inside the updater is
  harmless.
\<close>

theorem toggle_updater_idempotent:
  assumes "toggle_updater m b = Inr (m', b')"
  shows "toggle_updater m b' = Inr (m', b')"
proof -
  from assms have m': "m' = other_mode m" and "set_item ''theme'' (other_mode m) b = Inr b'"
    by (auto simp: toggle_updater_Inr)
  then have ok: "storage_access b = Storage_ok"
    and b': "b' = b\<lparr>local_storage := (local_storage b)(''theme'' \<mapsto> other_mode m)\<rparr>"
    by (simp_all add: set_item_Inr)
  have "set_item ''theme'' (other_mode m) b' = Inr b'"
    using ok by (simp add: set_item_Inr b')
  with m' show ?thesis by (simp add: toggle_updater_Inr)
qed

theorem toggle_updater_idempotent_witness:
  "toggle_updater ''dark''
     \<lparr>local_storage = [''theme'' \<mapsto> ''light''], storage_access = Storage_ok, console = [],
      prefers_dark = True, viewport_width = 500\<rparr> =
   Inr (''light'', \<lparr>local_storage = [''theme'' \<mapsto> ''light''], storage_access = Storage_ok,
      console = [], prefers_dark = True, viewport_width = 500\<rparr>)"
proof -
  have t: "toggle_updater ''dark''
     \<lparr>local_storage = Map.empty, storage_access = Storage_ok, console = [],
      prefers_dark = True, viewport_width = 500\<rparr> =
   Inr (''light'', \<lparr>local_storage = [''theme'' \<mapsto> ''light''], storage_access = Storage_ok,
      console = [], prefers_dark = True, viewport_width = 500\<rparr>)"
    by (simp add: toggle_updater_def set_item_def Let_def)
  show ?thesis by (rule toggle_updater_idempotent [OF t])
qed

text \<open>
  C25. The text is readable in both modes: every text colour of the palette and every
  background the theme sets (page, paper, drawer, card) are well-formed \<open>#rrggbb\<close>
  colours, and the text is lighter than each background by at least 140000 of the 255000
  luma steps in dark mode, and darker by as much in light mode.
\<close>

theorem theme_text_contrast:
  assumes "valid_mode m"
  shows "\<forall>fg \<in> {text_primary (palette (create_theme m)), text_secondary (palette (create_theme m))}.
         \<forall>bg \<in> {background_default (palette (create_theme m)), background_paper (palette (create_theme m)),
                 drawer_paper_bg (components (create_theme m)), card_root_bg (components (create_theme m))}.
           \<exists>f b. parse_hex_colour fg = Some f \<and> parse_hex_colour bg = Some b \<and>
             (if m = ''dark'' then luma b + 140000 \<le> luma f else luma f + 140000 \<le> luma b)"
  using assms by (auto simp: valid_mode_def create_theme_def hex_byte_def hex_val_def)

theorem theme_text_contrast_witness:
  "\<exists>f b. parse_hex_colour (text_secondary (palette (create_theme ''dark''))) = Some f \<and>
     parse_hex_colour (background_paper (palette (create_theme ''dark''))) = Some b \<and>
     luma b + 140000 \<le> luma f"
  using theme_text_contrast [of "''dark''"] by (simp add: valid_mode_def)

end
