(* ===== verification/Drawer.thy ===== *)
theory Drawer
  imports Theme
begin

text \<open>
  Model of the \<open>NavigationDrawer\<close> component of \<^verbatim>\<open>src/src/App.js\<close> (lines 22--140).
  The component owns no state: it renders its props (\<open>currentPage\<close>, \<open>isMobile\<close>,
  \<open>drawerOpen\<close>, and the two setters of its parent) and the theme context. Its rendering
  is a record of the attributes the code computes; every handler of the rendered tree is
  the list of effects it performs when it runs. The component is polymorphic in the type
  \<open>'u\<close> of the updates its setters enqueue, so the lemmas here hold for any parent that
  passes setters and a context; \<^theory_text>\<open>Main\<close> instantiates it.
\<close>

subsection \<open>Icons and navigation items\<close>

datatype icon =
  LockIcon | UnlockIcon | HomeIcon | InfoIcon | SecurityIcon | SmartphoneIcon
| WifiIcon | BatteryIcon | MenuIcon | CloseIcon

record nav_item =
  item_id :: js_string
  item_label :: js_string
  item_icon :: icon

definition nav_items :: "nav_item list" where
  "nav_items =
     [\<lparr>item_id = ''home'', item_label = ''Door Control'', item_icon = LockIcon\<rparr>,
      \<lparr>item_id = ''instructions'', item_label = ''How to Use'', item_icon = InfoIcon\<rparr>]"

definition drawer_width :: nat where
  "drawer_width = 240"

subsection \<open>Props and rendered attributes\<close>

record 'u drawer_props =
  dp_current_page :: js_string
  dp_set_current_page :: "js_string \<Rightarrow> 'u"
  dp_is_mobile :: bool
  dp_drawer_open :: bool
  dp_set_drawer_open :: "bool \<Rightarrow> 'u"

record 'u nav_item_view =
  niv_id :: js_string
  niv_label :: js_string
  niv_icon :: icon
  niv_selected :: bool
  niv_border_left :: js_string
  niv_icon_colour :: js_string
  niv_font_weight :: js_string
  niv_on_click :: "'u effect list"

text \<open>One \<open>ListItem\<close> of \<open>navItems.map(...)\<close>, lines 47--74.\<close>

definition render_nav_item :: "'u drawer_props \<Rightarrow> nav_item \<Rightarrow> 'u nav_item_view" where
  "render_nav_item p item =
     (let selected = (dp_current_page p = item_id item) in
      \<lparr>niv_id = item_id item,
       niv_label = item_label item,
       niv_icon = item_icon item,
       niv_selected = selected,
       niv_border_left = (if selected then ''4px solid'' else ''none''),
       niv_icon_colour = (if selected then ''primary.main'' else ''inherit''),
       niv_font_weight = (if selected then ''bold'' else ''normal''),
       niv_on_click =
         Enqueue (dp_set_current_page p (item_id item)) #
         (if dp_is_mobile p then [Enqueue (dp_set_drawer_open p False)] else [])\<rparr>)"

text \<open>
  The drawer's content, lines 32--101. The theme toggle is a \<open>ListItem\<close> whose
  \<open>onClick\<close> is \<open>toggleTheme\<close>, holding a \<open>Switch\<close> whose \<open>onChange\<close> is \<open>toggleTheme\<close>
  and whose \<open>onClick\<close> calls \<open>e.stopPropagation()\<close>.
\<close>

record 'u drawer_content =
  dc_title :: js_string
  dc_caption :: js_string
  dc_items :: "'u nav_item_view list"
  dc_theme_label :: js_string
  dc_theme_item_click :: "'u listener"
  dc_switch_checked :: bool
  dc_switch_change :: "'u effect list"
  dc_switch_click :: "'u listener"
  dc_footer :: js_string

definition drawer_content :: "'u theme_ctx \<Rightarrow> 'u drawer_props \<Rightarrow> 'u drawer_content" where
  "drawer_content ctx p =
     \<lparr>dc_title = ''Access Control'',
      dc_caption = ''Sample Website for IETP'',
      dc_items = map (render_nav_item p) nav_items,
      dc_theme_label = (if is_dark_mode ctx then ''Light Mode'' else ''Dark Mode''),
      dc_theme_item_click = (toggle_theme ctx, False),
      dc_switch_checked = is_dark_mode ctx,
      dc_switch_change = toggle_theme ctx,
      dc_switch_click = ([], True),
      dc_footer = ''IETP Group 16''\<rparr>"

datatype drawer_variant = Temporary | Permanent

record 'u drawer_view =
  dv_variant :: drawer_variant
  dv_open :: bool
  dv_on_close :: "'u effect list option"
  dv_width :: nat
  dv_content :: "'u drawer_content"

text \<open>The two returns of the component, lines 103--139.\<close>

definition navigation_drawer :: "'u theme_ctx \<Rightarrow> 'u drawer_props \<Rightarrow> 'u drawer_view" where
  "navigation_drawer ctx p =
     (if dp_is_mobile p then
        \<lparr>dv_variant = Temporary, dv_open = dp_drawer_open p,
         dv_on_close = Some [Enqueue (dp_set_drawer_open p False)],
         dv_width = drawer_width, dv_content = drawer_content ctx p\<rparr>
      else
        \<lparr>dv_variant = Permanent, dv_open = True, dv_on_close = None,
         dv_width = drawer_width, dv_content = drawer_content ctx p\<rparr>)"

subsection \<open>Event paths through the drawer\<close>

text \<open>
  A click on the switch raises two React events on the same native click: \<open>click\<close>,
  which bubbles from the switch's root through the enclosing \<open>ListItem\<close>, and
  \<open>change\<close> on the switch's input, which runs its \<open>onChange\<close>. React dispatches the
  \<open>onClick\<close> listeners first. A click elsewhere on the theme \<open>ListItem\<close> raises only
  \<open>click\<close> there.
\<close>

definition switch_click_effects :: "'u drawer_content \<Rightarrow> 'u effect list" where
  "switch_click_effects c = bubble [dc_switch_click c, dc_theme_item_click c] @ dc_switch_change c"

definition theme_item_click_effects :: "'u drawer_content \<Rightarrow> 'u effect list" where
  "theme_item_click_effects c = bubble [dc_theme_item_click c]"

definition drawer_visible :: "'u drawer_view \<Rightarrow> bool" where
  "drawer_visible v \<longleftrightarrow> dv_open v"

definition nav_ids :: "js_string list" where
  "nav_ids = map item_id nav_items"

subsection \<open>Lemmas\<close>

lemma nav_ids_eq: "nav_ids = [''home'', ''instructions'']"
  by (simp add: nav_ids_def nav_items_def)

lemma distinct_nav_ids: "distinct nav_ids"
  by (simp add: nav_ids_eq)

lemma dv_content_navigation_drawer [simp]:
  "dv_content (navigation_drawer ctx p) = drawer_content ctx p"
  by (simp add: navigation_drawer_def)

lemma niv_selected_render [simp]:
  "niv_selected (render_nav_item p item) \<longleftrightarrow> dp_current_page p = item_id item"
  by (simp add: render_nav_item_def Let_def)

lemma niv_id_render [simp]: "niv_id (render_nav_item p item) = item_id item"
  by (simp add: render_nav_item_def Let_def)

lemma niv_on_click_render [simp]:
  "niv_on_click (render_nav_item p item) =
     Enqueue (dp_set_current_page p (item_id item)) #
     (if dp_is_mobile p then [Enqueue (dp_set_drawer_open p False)] else [])"
  by (simp add: render_nav_item_def Let_def)

lemma dc_items_drawer_content [simp]:
  "dc_items (drawer_content ctx p) = map (render_nav_item p) nav_items"
  by (simp add: drawer_content_def)

subsection \<open>Properties\<close>

text \<open>
  C11. One toggle per click on the switch: because the switch's \<open>onClick\<close> stops the
  click before it reaches the enclosing \<open>ListItem\<close>, the effects of a click on the
  switch are exactly the context's \<open>toggleTheme\<close> effects, once, for every context and
  every set of props.
\<close>

theorem switch_click_toggles_once:
  "switch_click_effects (dv_content (navigation_drawer ctx p)) = toggle_theme ctx"
  by (simp add: switch_click_effects_def drawer_content_def)

theorem switch_click_toggles_once_witness:
  "switch_click_effects (dv_content (navigation_drawer
      \<lparr>is_dark_mode = False, toggle_theme = [Enqueue (1::nat)]\<rparr>
      \<lparr>dp_current_page = ''home'', dp_set_current_page = \<lambda>_. 2, dp_is_mobile = True,
       dp_drawer_open = True, dp_set_drawer_open = \<lambda>_. 3\<rparr>)) = [Enqueue 1]"
  using switch_click_toggles_once [of "\<lparr>is_dark_mode = False, toggle_theme = [Enqueue (1::nat)]\<rparr>"
      "\<lparr>dp_current_page = ''home'', dp_set_current_page = \<lambda>_. 2, dp_is_mobile = True,
       dp_drawer_open = True, dp_set_drawer_open = \<lambda>_. 3\<rparr>"]
  by simp

text \<open>
  C12. At most one navigation item is highlighted: the number of selected items is one
  when the current page is the id of a navigation item and zero otherwise.
\<close>

theorem selected_items_count:
  "length (filter niv_selected (dc_items (dv_content (navigation_drawer ctx p)))) =
     (if dp_current_page p \<in> set nav_ids then 1 else 0)"
proof -
  have "filter niv_selected (map (render_nav_item p) nav_items) =
        map (render_nav_item p) (filter (\<lambda>it. item_id it = dp_current_page p) nav_items)"
    by (simp add: filter_map comp_def eq_commute)
  moreover have "length (filter (\<lambda>it. item_id it = dp_current_page p) nav_items) =
      (if dp_current_page p \<in> set nav_ids then 1 else 0)"
    using distinct_nav_ids unfolding nav_ids_def by (rule length_filter_distinct_eq)
  ultimately show ?thesis by simp
qed

theorem selected_items_count_witness:
  "length (filter niv_selected (dc_items (dv_content (navigation_drawer
      \<lparr>is_dark_mode = False, toggle_theme = [Enqueue (1::nat)]\<rparr>
      \<lparr>dp_current_page = ''instructions'', dp_set_current_page = \<lambda>_. 2, dp_is_mobile = False,
       dp_drawer_open = False, dp_set_drawer_open = \<lambda>_. 3\<rparr>)))) = 1"
  using selected_items_count [of "\<lparr>is_dark_mode = False, toggle_theme = [Enqueue (1::nat)]\<rparr>"
      "\<lparr>dp_current_page = ''instructions'', dp_set_current_page = \<lambda>_. 2, dp_is_mobile = False,
       dp_drawer_open = False, dp_set_drawer_open = \<lambda>_. 3\<rparr>"]
  by (simp add: nav_ids_eq)

text \<open>
  C13. Where the drawer is shown: the permanent drawer of a wide screen is always open and
  has no close handler; on a narrow screen the temporary drawer is open exactly when
  \<open>drawerOpen\<close> is, and closing it enqueues \<open>setDrawerOpen(false)\<close>.
\<close>

theorem drawer_visibility:
  "(drawer_visible (navigation_drawer ctx p) \<longleftrightarrow> \<not> dp_is_mobile p \<or> dp_drawer_open p) \<and>
   dv_on_close (navigation_drawer ctx p) =
     (if dp_is_mobile p then Some [Enqueue (dp_set_drawer_open p False)] else None)"
  by (simp add: drawer_visible_def navigation_drawer_def)

theorem drawer_visibility_witness:
  "\<not> drawer_visible (navigation_drawer
      \<lparr>is_dark_mode = False, toggle_theme = [Enqueue (1::nat)]\<rparr>
      \<lparr>dp_current_page = ''home'', dp_set_current_page = \<lambda>_. 2, dp_is_mobile = True,
       dp_drawer_open = False, dp_set_drawer_open = \<lambda>_. 3\<rparr>)"
  using drawer_visibility [of "\<lparr>is_dark_mode = False, toggle_theme = [Enqueue (1::nat)]\<rparr>"
      "\<lparr>dp_current_page = ''home'', dp_set_current_page = \<lambda>_. 2, dp_is_mobile = True,
       dp_drawer_open = False, dp_set_drawer_open = \<lambda>_. 3\<rparr>"]
  by simp

end
