(* ===== verification/Main_Content.thy ===== *)
theory Main_Content
  imports Drawer
begin

text \<open>
  Model of the \<open>MainContent\<close> component of \<^verbatim>\<open>src/src/App.js\<close> (lines 143--382): its three
  pieces of state (\<open>isDoorLocked\<close>, \<open>currentPage\<close>, \<open>drawerOpen\<close>), the updates their
  setters enqueue, the \<open>toggleDoorLock\<close> handler with its console message, the two page
  renderers, the mobile app bar, and the layout that renders the drawer of
  \<^theory_text>\<open>Drawer\<close> and exactly one of the two pages. Like the drawer, the component is
  rendered against a theme context and a function naming its own updates in the type
  \<open>'u\<close> of the whole application's update queue.
\<close>

subsection \<open>State and setters\<close>

record main_state =
  is_door_locked :: bool
  current_page :: js_string
  drawer_open :: bool

text \<open>The three \<open>useState\<close> calls, lines 144--146.\<close>

definition main_initial :: main_state where
  "main_initial = \<lparr>is_door_locked = True, current_page = ''home'', drawer_open = False\<rparr>"

datatype main_update =
  Set_is_door_locked bool
| Set_current_page js_string
| Set_drawer_open bool

fun apply_main_update :: "main_state \<Rightarrow> main_update \<Rightarrow> main_state" where
  "apply_main_update s (Set_is_door_locked v) = s\<lparr>is_door_locked := v\<rparr>"
| "apply_main_update s (Set_current_page v) = s\<lparr>current_page := v\<rparr>"
| "apply_main_update s (Set_drawer_open v) = s\<lparr>drawer_open := v\<rparr>"

subsection \<open>The lock handler\<close>

text \<open>
  \<open>toggleDoorLock\<close>, lines 152--158: the new value is computed from the value the
  handler's render saw, the setter is called with it, then the message is logged.
\<close>

definition lock_message :: "bool \<Rightarrow> js_string" where
  "lock_message new_state = (if new_state then ''Locking'' else ''Unlocking'') @ '' door...''"

definition toggle_door_lock :: "(main_update \<Rightarrow> 'u) \<Rightarrow> main_state \<Rightarrow> 'u effect list" where
  "toggle_door_lock lift s =
     (let new_state = \<not> is_door_locked s
      in [Enqueue (lift (Set_is_door_locked new_state)), Log (lock_message new_state)])"

subsection \<open>The home page\<close>

record 'u home_view =
  hv_heading :: js_string
  hv_button_label :: js_string
  hv_button_bg :: js_string
  hv_button_hover_bg :: js_string
  hv_button_icon :: icon
  hv_on_click :: "'u effect list"
  hv_hint :: js_string
  hv_dot_colour :: js_string
  hv_status_colour :: js_string
  hv_status_text :: js_string

text \<open>\<open>renderHomePage\<close>, lines 161--226.\<close>

definition render_home_page :: "(main_update \<Rightarrow> 'u) \<Rightarrow> main_state \<Rightarrow> 'u home_view" where
  "render_home_page lift s =
     (let locked = is_door_locked s in
      \<lparr>hv_heading = ''Main Door Access'',
       hv_button_label = (if locked then ''LOCKED'' else ''UNLOCKED''),
       hv_button_bg = (if locked then ''error.main'' else ''success.main''),
       hv_button_hover_bg = (if locked then ''error.dark'' else ''success.dark''),
       hv_button_icon = (if locked then LockIcon else UnlockIcon),
       hv_on_click = toggle_door_lock lift s,
       hv_hint = ''Click to '' @ (if locked then ''unlock'' else ''lock'') @ '' the main door'',
       hv_dot_colour = (if locked then ''error.main'' else ''success.main''),
       hv_status_colour = (if locked then ''#f44336'' else ''#4caf50''),
       hv_status_text = (if locked then ''LOCKED'' else ''UNLOCKED'')\<rparr>)"

subsection \<open>The instructions page\<close>

datatype card_body =
  Item_list "(icon \<times> js_string \<times> js_string) list"
| Sections "(js_string \<times> js_string list) list"

record instr_card =
  card_icon :: icon
  card_title :: js_string
  card_body :: card_body

record instructions_view =
  iv_title :: js_string
  iv_cards :: "instr_card list"

text \<open>\<open>renderInstructionsPage\<close>, lines 229--313: static content.\<close>

definition render_instructions_page :: instructions_view where
  "render_instructions_page =
     \<lparr>iv_title = ''How to Use the Access System'',
      iv_cards =
        [\<lparr>card_icon = LockIcon, card_title = ''Basic Operation'',
          card_body = Item_list
            [(LockIcon, ''Single Button Control'', ''Click the large button to toggle lock/unlock''),
             (SmartphoneIcon, ''Mobile Access'', ''Access your door from anywhere''),
             (WifiIcon, ''Internet Required'', ''Stable connection needed for remote access'')]\<rparr>,
         \<lparr>card_icon = BatteryIcon, card_title = ''Troubleshooting'',
          card_body = Sections
            [(''Door not responding?'',
              [''1. Check internet connection'', ''2. Verify lock has power'', ''3. Refresh the app'']),
             (''Need help?'', [''Contact support: IETP16@gmail.com'', ''Emergency: 0911121314''])]\<rparr>]\<rparr>"

subsection \<open>Layout\<close>

datatype 'u page_view = Home_page "'u home_view" | Instructions_page instructions_view

record 'u app_bar_view =
  ab_menu_icon :: icon
  ab_on_menu_click :: "'u effect list"
  ab_title :: js_string
  ab_end_icon :: icon

record 'u main_view =
  mv_drawer :: "'u drawer_view"
  mv_app_bar :: "'u app_bar_view option"
  mv_page :: "'u page_view"
  mv_footer :: js_string

text \<open>
  The returned tree, lines 315--381, for the value \<open>isMobile\<close> of the media query. The
  drawer gets \<open>setCurrentPage\<close> and \<open>setDrawerOpen\<close>; the menu button of the mobile app
  bar enqueues \<open>setDrawerOpen(!drawerOpen)\<close> with the value its render saw.
\<close>

definition drawer_props_of :: "(main_update \<Rightarrow> 'u) \<Rightarrow> bool \<Rightarrow> main_state \<Rightarrow> 'u drawer_props" where
  "drawer_props_of lift is_mobile s =
     \<lparr>dp_current_page = current_page s, dp_set_current_page = lift \<circ> Set_current_page,
      dp_is_mobile = is_mobile, dp_drawer_open = drawer_open s,
      dp_set_drawer_open = lift \<circ> Set_drawer_open\<rparr>"

fun shown_page :: "'u page_view \<Rightarrow> js_string" where
  "shown_page (Home_page h) = ''home''"
| "shown_page (Instructions_page i) = ''instructions''"

definition main_content ::
  "'u theme_ctx \<Rightarrow> (main_update \<Rightarrow> 'u) \<Rightarrow> bool \<Rightarrow> main_state \<Rightarrow> 'u main_view" where
  "main_content ctx lift is_mobile s =
     \<lparr>mv_drawer = navigation_drawer ctx (drawer_props_of lift is_mobile s),
      mv_app_bar =
        (if is_mobile then
           Some \<lparr>ab_menu_icon = (if drawer_open s then CloseIcon else MenuIcon),
                 ab_on_menu_click = [Enqueue (lift (Set_drawer_open (\<not> drawer_open s)))],
                 ab_title = (if current_page s = ''home'' then ''Door Control'' else ''Instructions''),
                 ab_end_icon = HomeIcon\<rparr>
         else None),
      mv_page =
        (if current_page s = ''home'' then Home_page (render_home_page lift s)
         else Instructions_page render_instructions_page),
      mv_footer = ''Secure & Reliable''\<rparr>"

subsection \<open>Lemmas\<close>

lemma drawer_props_of_simps [simp]:
  "dp_current_page (drawer_props_of lift m s) = current_page s"
  "dp_set_current_page (drawer_props_of lift m s) = lift \<circ> Set_current_page"
  "dp_is_mobile (drawer_props_of lift m s) = m"
  "dp_drawer_open (drawer_props_of lift m s) = drawer_open s"
  "dp_set_drawer_open (drawer_props_of lift m s) = lift \<circ> Set_drawer_open"
  by (simp_all add: drawer_props_of_def)

lemma main_content_simps [simp]:
  "mv_drawer (main_content ctx lift m s) = navigation_drawer ctx (drawer_props_of lift m s)"
  "mv_page (main_content ctx lift m s) =
     (if current_page s = ''home'' then Home_page (render_home_page lift s)
      else Instructions_page render_instructions_page)"
  by (simp_all add: main_content_def)

lemma mv_app_bar_main_content:
  "mv_app_bar (main_content ctx lift m s) = Some ab \<longleftrightarrow>
     m \<and> ab = \<lparr>ab_menu_icon = (if drawer_open s then CloseIcon else MenuIcon),
              ab_on_menu_click = [Enqueue (lift (Set_drawer_open (\<not> drawer_open s)))],
              ab_title = (if current_page s = ''home'' then ''Door Control'' else ''Instructions''),
              ab_end_icon = HomeIcon\<rparr>"
  by (auto simp: main_content_def)

lemma toggle_door_lock_effects:
  "enqueued (toggle_door_lock lift s) = [lift (Set_is_door_locked (\<not> is_door_locked s))]"
  "logged (toggle_door_lock lift s) = [lock_message (\<not> is_door_locked s)]"
  by (simp_all add: toggle_door_lock_def Let_def)

lemma selected_ids_main_content:
  "map niv_id (filter niv_selected (dc_items (dv_content (mv_drawer (main_content ctx lift m s))))) =
     filter (\<lambda>i. i = current_page s) nav_ids"
  by (simp add: nav_ids_def filter_map comp_def eq_commute)

lemma selected_ids_shown_page:
  assumes "current_page s \<in> set nav_ids"
  shows "map niv_id (filter niv_selected (dc_items (dv_content (mv_drawer (main_content ctx lift m s))))) =
           [shown_page (mv_page (main_content ctx lift m s))]"
  using assms unfolding selected_ids_main_content nav_ids_eq
  by (cases "current_page s = ''home''") auto

subsection \<open>Properties\<close>

text \<open>
  C14. The home page agrees with itself: the button's label, the status text, the lock
  icon and the button and status-dot colours all show the same lock state, the one in
  \<open>isDoorLocked\<close>.
\<close>

theorem home_view_consistent:
  assumes "v = render_home_page lift s"
  shows "hv_button_label v = hv_status_text v \<and> hv_button_bg v = hv_dot_colour v \<and>
         (hv_status_text v = ''LOCKED'' \<longleftrightarrow> is_door_locked s) \<and>
         (hv_button_icon v = LockIcon \<longleftrightarrow> is_door_locked s) \<and>
         (hv_status_colour v = ''#f44336'' \<longleftrightarrow> is_door_locked s)"
  using assms by (simp add: render_home_page_def Let_def)

theorem home_view_consistent_witness:
  "hv_status_text (render_home_page id main_initial) = ''LOCKED'' \<and>
   hv_button_icon (render_home_page id main_initial) = LockIcon"
  using home_view_consistent [of "render_home_page id main_initial" id main_initial]
  by (simp add: main_initial_def)

text \<open>
  C20. The button does what the hint under it says: the click enqueues
  \<open>setIsDoorLocked(true)\<close> exactly when the hint reads \<open>Click to lock the main door\<close>,
  and it logs \<open>Locking door...\<close> in that case and \<open>Unlocking door...\<close> otherwise.
\<close>

theorem hint_predicts_click:
  assumes "v = render_home_page lift s"
  shows "enqueued (hv_on_click v) =
           [lift (Set_is_door_locked (hv_hint v = ''Click to lock the main door''))] \<and>
         logged (hv_on_click v) =
           [if hv_hint v = ''Click to lock the main door'' then ''Locking door...''
            else ''Unlocking door...'']"
  using assms by (simp add: render_home_page_def Let_def toggle_door_lock_effects lock_message_def)

theorem hint_predicts_click_witness:
  "hv_hint (render_home_page id main_initial) = ''Click to unlock the main door'' \<and>
   logged (hv_on_click (render_home_page (id :: main_update \<Rightarrow> main_update) main_initial)) =
     [''Unlocking door...'']"
  using hint_predicts_click [of "render_home_page id main_initial" id main_initial]
  by (simp add: main_initial_def render_home_page_def)

text \<open>
  C21. The mobile title and the highlighted label agree only on the home page: on a
  narrow screen the app bar's title is the label of the highlighted navigation item when
  the page is \<open>'home'\<close> (\<open>Door Control\<close>), but reads \<open>Instructions\<close> where the item
  reads \<open>How to Use\<close>.
\<close>

theorem app_bar_title_vs_label:
  assumes "current_page s \<in> set nav_ids"
    and "mv_app_bar (main_content ctx lift m s) = Some ab"
  shows "map niv_label (filter niv_selected (dc_items (dv_content (mv_drawer (main_content ctx lift m s))))) =
           [ab_title ab] \<longleftrightarrow> current_page s = ''home''"
  using assms
  by (auto simp: mv_app_bar_main_content nav_ids_eq nav_items_def render_nav_item_def Let_def)

theorem app_bar_title_vs_label_witness:
  "mv_app_bar (main_content (\<lparr>is_dark_mode = False, toggle_theme = []\<rparr> :: unit theme_ctx) (\<lambda>_. ()) True
      (main_initial\<lparr>current_page := ''instructions''\<rparr>)) \<noteq> None \<and>
   map niv_label (filter niv_selected (dc_items (dv_content (mv_drawer
      (main_content \<lparr>is_dark_mode = False, toggle_theme = []\<rparr> (\<lambda>_. ()) True (main_initial\<lparr>current_page := ''instructions''\<rparr>)))))) =
     [''How to Use'']"
proof -
  let ?s = "main_initial\<lparr>current_page := ''instructions''\<rparr>"
  obtain ab where ab: "mv_app_bar (main_content \<lparr>is_dark_mode = False, toggle_theme = []\<rparr> (\<lambda>_. ()) True ?s) = Some ab"
    by (simp add: main_content_def)
  have "ab_title ab = ''Instructions''"
    using ab by (simp add: mv_app_bar_main_content main_initial_def)
  have "map niv_label (filter niv_selected (dc_items (dv_content (mv_drawer
      (main_content \<lparr>is_dark_mode = False, toggle_theme = []\<rparr> (\<lambda>_. ()) True ?s))))) \<noteq> [ab_title ab]"
    using app_bar_title_vs_label [of ?s "\<lparr>is_dark_mode = False, toggle_theme = []\<rparr>" "\<lambda>_. ()" True ab] ab
    by (simp add: main_initial_def nav_ids_eq)
  moreover have "map niv_label (filter niv_selected (dc_items (dv_content (mv_drawer
      (main_content \<lparr>is_dark_mode = False, toggle_theme = []\<rparr> (\<lambda>_. ()) True ?s))))) = [''How to Use'']"
    by (simp add: main_initial_def nav_items_def render_nav_item_def)
  ultimately show ?thesis using ab by simp
qed

end
