(* ===== verification/App.thy ===== *)
theory App
  imports Main_Content
begin

text \<open>
  Model of the composition \<open>App\<close> of \<^verbatim>\<open>src/src/App.js\<close> (lines 384--390): a
  \<open>ThemeProvider\<close> around a \<open>MainContent\<close>. The application state is the provider's mode
  and the content's three fields; the updates of one event are the provider's toggle
  updater and the content's setters, applied in order after the handlers ran, the first
  exception unmounting the application. An event is a click on an element of the rendered
  tree: it exists only while the element is rendered and visible, and its handlers are the
  ones that render installed. The environment (window width, colour-scheme preference,
  storage permissions, writes to storage by other pages, reloads) changes the browser
  between events. Reachable states, an invariant and the observable behaviour of each
  event follow.
\<close>

subsection \<open>Application state and update queue\<close>

datatype update = Toggle_mode | Main_update main_update

record ui_state =
  mode :: js_string
  main :: main_state

fun apply_update :: "ui_state \<times> browser \<Rightarrow> update \<Rightarrow> js_error + ui_state \<times> browser" where
  "apply_update (s, b) Toggle_mode =
     sbind (toggle_updater (mode s) b) (\<lambda>(m, b'). Inr (s\<lparr>mode := m\<rparr>, b'))"
| "apply_update (s, b) (Main_update u) = Inr (s\<lparr>main := apply_main_update (main s) u\<rparr>, b)"

definition flush :: "update list \<Rightarrow> ui_state \<times> browser \<Rightarrow> js_error + ui_state \<times> browser" where
  "flush us sb = sfold apply_update us sb"

subsection \<open>Rendering and events\<close>

text \<open>\<open>App\<close>: the provider's context value feeds \<open>MainContent\<close>, rendered for the current width.\<close>

definition app_view :: "browser \<Rightarrow> ui_state \<Rightarrow> update main_view" where
  "app_view b s =
     main_content (theme_value Toggle_mode (mode s)) Main_update (max_width_768 b) (main s)"

datatype target =
  Lock_button | Nav_item js_string | Theme_item | Theme_switch | Menu_button | Drawer_backdrop

fun target_effects :: "update main_view \<Rightarrow> target \<Rightarrow> update effect list option" where
  "target_effects v Lock_button =
     (case mv_page v of Home_page h \<Rightarrow> Some (hv_on_click h) | Instructions_page i \<Rightarrow> None)"
| "target_effects v (Nav_item i) =
     (if drawer_visible (mv_drawer v)
      then map_option niv_on_click (find (\<lambda>it. niv_id it = i) (dc_items (dv_content (mv_drawer v))))
      else None)"
| "target_effects v Theme_item =
     (if drawer_visible (mv_drawer v)
      then Some (theme_item_click_effects (dv_content (mv_drawer v))) else None)"
| "target_effects v Theme_switch =
     (if drawer_visible (mv_drawer v)
      then Some (switch_click_effects (dv_content (mv_drawer v))) else None)"
| "target_effects v Menu_button = map_option ab_on_menu_click (mv_app_bar v)"
| "target_effects v Drawer_backdrop =
     (if drawer_visible (mv_drawer v) then dv_on_close (mv_drawer v) else None)"

datatype app = Mounted ui_state | Crashed js_error

text \<open>Mounting: the provider's initialiser, then \<open>MainContent\<close>'s initial state.\<close>

definition app_init :: "browser \<Rightarrow> app" where
  "app_init b =
     (case initial_mode b of
        Inl e \<Rightarrow> Crashed e
      | Inr m \<Rightarrow> Mounted \<lparr>mode = m, main = main_initial\<rparr>)"

text \<open>
  One user event on a mounted application: \<open>None\<close> when the target is not rendered;
  otherwise the handlers run (logging at once), then the queue is flushed.
\<close>

definition handle_event :: "browser \<Rightarrow> ui_state \<Rightarrow> target \<Rightarrow> (app \<times> browser) option" where
  "handle_event b s t =
     map_option
       (\<lambda>es. let (us, b1) = run_effects es b in
             (case flush us (s, b1) of
                Inl e \<Rightarrow> (Crashed e, b1)
              | Inr (s', b2) \<Rightarrow> (Mounted s', b2)))
       (target_effects (app_view b s) t)"

text \<open>
  Several clicks handled in one batch against the same render, the way React treats
  non-discrete events: every handler runs against the same rendered tree, then the whole
  queue is applied. A click event is discrete, so \<open>handle_event\<close> flushes after each
  one; the batch shows what the handlers would do without that flush.
\<close>

definition handle_batch :: "browser \<Rightarrow> ui_state \<Rightarrow> target list \<Rightarrow> (app \<times> browser) option" where
  "handle_batch b s ts =
     map_option
       (\<lambda>ess. let (us, b1) = run_effects (concat ess) b in
              (case flush us (s, b1) of
                 Inl e \<Rightarrow> (Crashed e, b1)
               | Inr (s', b2) \<Rightarrow> (Mounted s', b2)))
       (those (map (target_effects (app_view b s)) ts))"

subsection \<open>Environment and runs\<close>

datatype env_event =
  Resize nat
| Set_prefers_dark bool
| Set_storage_access storage_access
| Write_storage js_string "js_string option"
| Reload

fun env_step :: "app \<times> browser \<Rightarrow> env_event \<Rightarrow> app \<times> browser" where
  "env_step (a, b) (Resize w) = (a, b\<lparr>viewport_width := w\<rparr>)"
| "env_step (a, b) (Set_prefers_dark p) = (a, b\<lparr>prefers_dark := p\<rparr>)"
| "env_step (a, b) (Set_storage_access x) = (a, b\<lparr>storage_access := x\<rparr>)"
| "env_step (a, b) (Write_storage k v) = (a, b\<lparr>local_storage := (local_storage b)(k := v)\<rparr>)"
| "env_step (a, b) Reload = (app_init b, b)"

inductive app_step :: "app \<times> browser \<Rightarrow> app \<times> browser \<Rightarrow> bool" where
  user: "handle_event b s t = Some c' \<Longrightarrow> app_step (Mounted s, b) c'"
| env: "app_step c (env_step c e)"

inductive reachable :: "app \<times> browser \<Rightarrow> bool" where
  start: "reachable (app_init b, b)"
| step: "reachable c \<Longrightarrow> app_step c c' \<Longrightarrow> reachable c'"


datatype action = User target | Env env_event

text \<open>An executable run: a click on nothing, or on a crashed application, changes nothing.\<close>

fun run :: "app \<times> browser \<Rightarrow> action list \<Rightarrow> app \<times> browser" where
  "run c [] = c"
| "run (Mounted s, b) (User t # as) =
     run (case handle_event b s t of None \<Rightarrow> (Mounted s, b) | Some c' \<Rightarrow> c') as"
| "run (Crashed e, b) (User t # as) = run (Crashed e, b) as"
| "run c (Env e # as) = run (env_step c e) as"

subsection \<open>The invariant\<close>

definition ui_inv :: "ui_state \<Rightarrow> bool" where
  "ui_inv s \<longleftrightarrow> valid_mode (mode s) \<and> current_page (main s) \<in> set nav_ids"

fun app_inv :: "app \<Rightarrow> bool" where
  "app_inv (Mounted s) = ui_inv s"
| "app_inv (Crashed e) = True"

text \<open>
  The stored preference agrees with the mode: a mounted application's mode is the value
  stored under \<open>'theme'\<close>; an unmounted one has a valid mode stored. Another page
  writing to \<open>'theme'\<close> is the one action that can break the agreement.
\<close>

fun synced :: "app \<times> browser \<Rightarrow> bool" where
  "synced (Mounted s, b) = (valid_mode (mode s) \<and> local_storage b ''theme'' = Some (mode s))"
| "synced (Crashed e, b) = (\<exists>m. valid_mode m \<and> local_storage b ''theme'' = Some m)"

fun foreign_theme_write :: "action \<Rightarrow> bool" where
  "foreign_theme_write (Env (Write_storage k v)) = (k = ''theme'')"
| "foreign_theme_write a = False"

fun update_ok :: "update \<Rightarrow> bool" where
  "update_ok (Main_update (Set_current_page i)) = (i \<in> set nav_ids)"
| "update_ok u = True"

subsection \<open>Lemmas\<close>

lemma drawer_visible_app_view:
  "drawer_visible (mv_drawer (app_view b s)) \<longleftrightarrow> \<not> max_width_768 b \<or> drawer_open (main s)"
  by (simp add: app_view_def drawer_visible_def navigation_drawer_def)

lemma find_nav_item:
  "map_option niv_on_click (find (\<lambda>it. niv_id it = i) (map (render_nav_item p) nav_items)) =
     (if i \<in> set nav_ids
      then Some (Enqueue (dp_set_current_page p i) #
                 (if dp_is_mobile p then [Enqueue (dp_set_drawer_open p False)] else []))
      else None)"
  by (auto simp: nav_items_def nav_ids_eq)

lemma dc_items_app_view:
  "dc_items (dv_content (mv_drawer (app_view b s))) =
     map (render_nav_item (drawer_props_of Main_update (max_width_768 b) (main s))) nav_items"
  by (simp add: app_view_def)

lemma target_effects_nav_item:
  "target_effects (app_view b s) (Nav_item i) =
     (if (\<not> max_width_768 b \<or> drawer_open (main s)) \<and> i \<in> set nav_ids
      then Some (Enqueue (Main_update (Set_current_page i)) #
                 (if max_width_768 b then [Enqueue (Main_update (Set_drawer_open False))] else []))
      else None)"
  by (simp add: drawer_visible_app_view dc_items_app_view find_nav_item)

lemma target_effects_app_view:
  "target_effects (app_view b s) Lock_button =
     (if current_page (main s) = ''home'' then Some (toggle_door_lock Main_update (main s)) else None)"
  "target_effects (app_view b s) Theme_item =
     (if \<not> max_width_768 b \<or> drawer_open (main s) then Some [Enqueue Toggle_mode] else None)"
  "target_effects (app_view b s) Theme_switch =
     (if \<not> max_width_768 b \<or> drawer_open (main s) then Some [Enqueue Toggle_mode] else None)"
  "target_effects (app_view b s) Menu_button =
     (if max_width_768 b
      then Some [Enqueue (Main_update (Set_drawer_open (\<not> drawer_open (main s))))] else None)"
  "target_effects (app_view b s) Drawer_backdrop =
     (if max_width_768 b \<and> drawer_open (main s)
      then Some [Enqueue (Main_update (Set_drawer_open False))] else None)"
  by (simp_all add: drawer_visible_app_view find_nav_item)
     (simp_all add: app_view_def main_content_def render_home_page_def Let_def
        switch_click_effects_def theme_item_click_effects_def drawer_content_def
        theme_value_def navigation_drawer_def drawer_visible_def)

lemma handle_event_eq:
  "handle_event b s t =
     (case target_effects (app_view b s) t of
        None \<Rightarrow> None
      | Some es \<Rightarrow>
          Some (case flush (enqueued es) (s, b\<lparr>console := console b @ logged es\<rparr>) of
                  Inl e \<Rightarrow> (Crashed e, b\<lparr>console := console b @ logged es\<rparr>)
                | Inr (s', b2) \<Rightarrow> (Mounted s', b2)))"
  by (simp add: handle_event_def run_effects_eq split: option.split)

lemma target_effects_update_ok:
  "target_effects (app_view b s) t = Some es \<Longrightarrow> \<forall>u \<in> set (enqueued es). update_ok u"
  by (cases t)
     (auto simp del: target_effects.simps
       simp: target_effects_app_view target_effects_nav_item toggle_door_lock_effects
       split: if_splits)

lemma apply_update_inv:
  assumes "ui_inv s" and "update_ok u" and "apply_update (s, b) u = Inr (s', b')"
  shows "ui_inv s'"
proof (cases u)
  case Toggle_mode
  with assms(3) obtain m where "toggle_updater (mode s) b = Inr (m, b')" and "s' = s\<lparr>mode := m\<rparr>"
    by (auto simp: sbind_eq_Inr_iff)
  with assms(1) show ?thesis
    by (auto simp: ui_inv_def toggle_updater_Inr)
next
  case (Main_update mu)
  with assms show ?thesis
    by (cases mu) (auto simp: ui_inv_def)
qed

lemma flush_inv:
  assumes "ui_inv s" and "\<forall>u \<in> set us. update_ok u" and "flush us (s, b) = Inr (s', b')"
  shows "ui_inv s'"
proof -
  have "case (s', b') of (s, b) \<Rightarrow> ui_inv s"
  proof (rule sfold_invariant [where P = "\<lambda>(s, b). ui_inv s" and Q = update_ok])
    show "case (s, b) of (s, b) \<Rightarrow> ui_inv s" using assms(1) by simp
    show "\<forall>u \<in> set us. update_ok u" by (rule assms(2))
    show "sfold apply_update us (s, b) = Inr (s', b')" using assms(3) by (simp add: flush_def)
  next
    fix sb u sb'
    assume "case sb of (s, b) \<Rightarrow> ui_inv s" and "update_ok u" and "apply_update sb u = Inr sb'"
    then show "case sb' of (s, b) \<Rightarrow> ui_inv s"
      by (cases sb, cases sb') (auto intro: apply_update_inv)
  qed
  then show ?thesis by simp
qed

lemma handle_event_inv:
  assumes "ui_inv s" and "handle_event b s t = Some (a', b')"
  shows "app_inv a'"
proof -
  from assms(2) obtain es where es: "target_effects (app_view b s) t = Some es"
    by (auto simp: handle_event_eq split: option.splits)
  then have ok: "\<forall>u \<in> set (enqueued es). update_ok u"
    by (rule target_effects_update_ok)
  show ?thesis
  proof (cases "flush (enqueued es) (s, b\<lparr>console := console b @ logged es\<rparr>)")
    case (Inl e)
    with assms(2) es show ?thesis by (auto simp: handle_event_eq)
  next
    case (Inr r)
    with assms(2) es obtain s2 where "a' = Mounted s2"
      and f: "flush (enqueued es) (s, b\<lparr>console := console b @ logged es\<rparr>) = Inr (s2, b')"
      by (cases r) (auto simp: handle_event_eq)
    from flush_inv [OF assms(1) ok f] \<open>a' = Mounted s2\<close> show ?thesis by simp
  qed
qed

lemma app_init_inv: "app_inv (app_init b)"
  by (auto simp: app_init_def ui_inv_def main_initial_def nav_ids_eq
      dest: initial_mode_valid split: sum.split)

lemma env_step_inv: "app_inv a \<Longrightarrow> app_inv (fst (env_step (a, b) e))"
  by (cases e) (simp_all add: app_init_inv)

lemma app_step_inv: "app_step c c' \<Longrightarrow> app_inv (fst c) \<Longrightarrow> app_inv (fst c')"
proof (induction rule: app_step.induct)
  case (user b s t c')
  then show ?case by (cases c') (auto intro: handle_event_inv)
next
  case (env c e)
  then show ?case by (cases c) (simp add: env_step_inv)
qed

lemma reachable_inv: "reachable c \<Longrightarrow> app_inv (fst c)"
proof (induction rule: reachable.induct)
  case (start b)
  then show ?case by (simp add: app_init_inv)
next
  case (step c c')
  from step.hyps(2) step.IH show ?case by (rule app_step_inv)
qed

lemma run_append: "run c (xs @ ys) = run (run c xs) ys"
  by (induction c xs rule: run.induct) simp_all

lemma run_reachable: "reachable c \<Longrightarrow> reachable (run c as)"
proof (induction c as rule: run.induct)
  case (1 c)
  then show ?case by simp
next
  case (2 s b t as)
  show ?case
  proof (cases "handle_event b s t")
    case None
    with 2 show ?thesis by simp
  next
    case (Some c')
    with "2.prems" have "reachable c'" by (blast intro: reachable.step app_step.user)
    with 2 Some show ?thesis by simp
  qed
next
  case (3 e b t as)
  then show ?case by simp
next
  case (4 c e as)
  then show ?case by (simp add: reachable.step app_step.env)
qed

lemma handle_event_single:
  assumes "target_effects (app_view b s) t = Some [Enqueue u]"
  shows "handle_event b s t =
           Some (case apply_update (s, b) u of Inl e \<Rightarrow> (Crashed e, b) | Inr (s', b') \<Rightarrow> (Mounted s', b'))"
  using assms by (auto simp: handle_event_eq flush_def split: sum.split)

lemma mounted_initial:
  "storage_access b \<noteq> Storage_blocked \<Longrightarrow> local_storage b ''theme'' = None \<Longrightarrow>
   app_init b = Mounted \<lparr>mode = (if prefers_dark b then ''dark'' else ''light''), main = main_initial\<rparr>"
proof -
  assume "storage_access b \<noteq> Storage_blocked" and "local_storage b ''theme'' = None"
  then have "initial_mode b = Inr (if prefers_dark b then ''dark'' else ''light'')"
    by (simp add: initial_mode_Inr)
  then show ?thesis by (simp add: app_init_def)
qed

lemma apply_update_toggle:
  "apply_update (s, b) Toggle_mode =
     (if storage_access b = Storage_ok
      then Inr (s\<lparr>mode := other_mode (mode s)\<rparr>,
                b\<lparr>local_storage := (local_storage b)(''theme'' \<mapsto> other_mode (mode s))\<rparr>)
      else Inl (if storage_access b = Storage_blocked then SecurityError else QuotaExceededError))"
  by (auto simp: toggle_updater_other_mode set_item_def split: storage_access.split)

declare apply_update.simps(1) [simp del]

lemma handle_event_lock_home:
  "current_page (main s) = ''home'' \<Longrightarrow>
   handle_event b s Lock_button =
     Some (Mounted (s\<lparr>main := (main s)\<lparr>is_door_locked := \<not> is_door_locked (main s)\<rparr>\<rparr>),
           b\<lparr>console := console b @ [lock_message (\<not> is_door_locked (main s))]\<rparr>)"
  by (simp add: handle_event_eq target_effects_app_view toggle_door_lock_effects flush_def
      del: target_effects.simps)

lemma handle_event_nav_visible:
  "\<not> max_width_768 b \<or> drawer_open (main s) \<Longrightarrow> i \<in> set nav_ids \<Longrightarrow>
   handle_event b s (Nav_item i) =
     Some (Mounted (s\<lparr>main := (main s)\<lparr>current_page := i,
             drawer_open := (drawer_open (main s) \<and> \<not> max_width_768 b)\<rparr>\<rparr>), b)"
  by (simp add: handle_event_eq target_effects_nav_item flush_def del: target_effects.simps)

lemma handle_event_menu_mobile:
  "max_width_768 b \<Longrightarrow>
   handle_event b s Menu_button =
     Some (Mounted (s\<lparr>main := (main s)\<lparr>drawer_open := \<not> drawer_open (main s)\<rparr>\<rparr>), b)"
  by (simp add: handle_event_eq target_effects_app_view flush_def del: target_effects.simps)

lemma synced_handle_event:
  assumes "synced (Mounted s, b)" and "handle_event b s t = Some c'"
  shows "synced c'"
  using assms
  by (cases t)
     (auto simp: handle_event_eq target_effects_app_view target_effects_nav_item
       toggle_door_lock_effects flush_def apply_update_toggle
       simp del: target_effects.simps split: if_splits)

lemma synced_reload:
  assumes "\<exists>m. valid_mode m \<and> local_storage b ''theme'' = Some m"
  shows "synced (app_init b, b)"
  using assms
  by (auto simp: app_init_def initial_mode_def get_item_def valid_mode_def)

lemma synced_env_step:
  assumes "synced c" and "\<not> foreign_theme_write (Env e)"
  shows "synced (env_step c e)"
proof -
  obtain a b where c: "c = (a, b)" by (cases c)
  from assms(1) c have stored: "\<exists>m. valid_mode m \<and> local_storage b ''theme'' = Some m"
    by (cases a) auto
  show ?thesis
    using assms c stored by (cases e; cases a) (auto intro: synced_reload)
qed

subsection \<open>Properties\<close>

text \<open>
  C1. Every reachable mounted state is well formed: the mode is \<open>'light'\<close> or
  \<open>'dark'\<close> and the current page is the id of a navigation item, whatever the user
  clicked and whatever the environment did (resizing, storage permissions, foreign writes
  to storage, reloads).
\<close>

theorem reachable_ui_inv: "reachable (Mounted s, b) \<Longrightarrow> ui_inv s"
  using reachable_inv [of "(Mounted s, b)"] by simp

theorem reachable_ui_inv_witness:
  "ui_inv (case run (app_init \<lparr>local_storage = Map.empty, storage_access = Storage_ok,
        console = [], prefers_dark = False, viewport_width = 500\<rparr>,
      \<lparr>local_storage = Map.empty, storage_access = Storage_ok,
        console = [], prefers_dark = False, viewport_width = 500\<rparr>)
      [User Menu_button, User (Nav_item ''instructions''), User Menu_button, User Theme_switch] of
    (Mounted s, b) \<Rightarrow> s | (Crashed e, b) \<Rightarrow> \<lparr>mode = [], main = main_initial\<rparr>)"
proof -
  let ?b = "\<lparr>local_storage = Map.empty, storage_access = Storage_ok,
        console = [], prefers_dark = False, viewport_width = 500\<rparr>"
  let ?r = "run (app_init ?b, ?b) [User Menu_button, User (Nav_item ''instructions''), User Menu_button, User Theme_switch]"
  have r: "reachable ?r" by (rule run_reachable [OF reachable.start])
  have "fst ?r = Mounted \<lparr>mode = ''dark'', main = main_initial\<lparr>current_page := ''instructions'', drawer_open := True\<rparr>\<rparr>"
    by (simp add: mounted_initial handle_event_eq target_effects_app_view target_effects_nav_item
        max_width_768_def flush_def main_initial_def nav_ids_eq apply_update_toggle other_mode_def
        del: target_effects.simps)
  then obtain b' where e: "?r = (Mounted \<lparr>mode = ''dark'', main = main_initial\<lparr>current_page := ''instructions'', drawer_open := True\<rparr>\<rparr>, b')"
    by (cases ?r) auto
  from r e have "ui_inv \<lparr>mode = ''dark'', main = main_initial\<lparr>current_page := ''instructions'', drawer_open := True\<rparr>\<rparr>"
    using reachable_ui_inv by metis
  with e show ?thesis by simp
qed

text \<open>
  C2. Exactly one page is shown, and it is the highlighted one: in every reachable mounted
  state the drawer highlights exactly one navigation item, and its id is the page the
  layout renders.
\<close>

theorem reachable_one_page:
  assumes "reachable (Mounted s, b)"
  shows "map niv_id (filter niv_selected (dc_items (dv_content (mv_drawer (app_view b s))))) =
           [shown_page (mv_page (app_view b s))]"
proof -
  from reachable_inv [OF assms] have "current_page (main s) \<in> set nav_ids"
    by (simp add: ui_inv_def)
  then show ?thesis unfolding app_view_def by (rule selected_ids_shown_page)
qed

theorem reachable_one_page_witness:
  "map niv_id (filter niv_selected (dc_items (dv_content (mv_drawer
      (app_view \<lparr>local_storage = Map.empty, storage_access = Storage_ok, console = [],
                  prefers_dark = True, viewport_width = 1024\<rparr>
                \<lparr>mode = ''dark'', main = main_initial\<rparr>))))) = [''home'']"
proof -
  let ?b = "\<lparr>local_storage = Map.empty, storage_access = Storage_ok, console = [],
             prefers_dark = True, viewport_width = 1024\<rparr>"
  have "reachable (app_init ?b, ?b)" by (rule reachable.start)
  then have r: "reachable (Mounted \<lparr>mode = ''dark'', main = main_initial\<rparr>, ?b)"
    by (simp add: mounted_initial)
  show ?thesis
    using reachable_one_page [OF r]
    by (simp add: app_view_def main_initial_def)
qed

text \<open>
  C3. The lock button: it exists only on the home page; a click flips \<open>isDoorLocked\<close>,
  changes nothing else of the state, and appends to the console the message for the new
  state (\<open>Locking door...\<close> when the door becomes locked, \<open>Unlocking door...\<close> otherwise).
\<close>

theorem lock_button_event:
  "handle_event b s Lock_button =
     (if current_page (main s) = ''home''
      then Some (Mounted (s\<lparr>main := (main s)\<lparr>is_door_locked := \<not> is_door_locked (main s)\<rparr>\<rparr>),
                 b\<lparr>console := console b @
                   [(if is_door_locked (main s) then ''Unlocking'' else ''Locking'') @ '' door...'']\<rparr>)
      else None)"
  by (simp add: handle_event_eq target_effects_app_view toggle_door_lock_effects flush_def
      lock_message_def del: target_effects.simps)

theorem lock_button_event_witness:
  "handle_event \<lparr>local_storage = Map.empty, storage_access = Storage_ok, console = [],
       prefers_dark = False, viewport_width = 500\<rparr>
     \<lparr>mode = ''light'', main = main_initial\<rparr> Lock_button =
   Some (Mounted \<lparr>mode = ''light'', main = main_initial\<lparr>is_door_locked := False\<rparr>\<rparr>,
         \<lparr>local_storage = Map.empty, storage_access = Storage_ok, console = [''Unlocking door...''],
          prefers_dark = False, viewport_width = 500\<rparr>)"
  using lock_button_event [of "\<lparr>local_storage = Map.empty, storage_access = Storage_ok, console = [],
       prefers_dark = False, viewport_width = 500\<rparr>" "\<lparr>mode = ''light'', main = main_initial\<rparr>"]
  by (simp add: main_initial_def)

text \<open>
  C4. The theme switch: it can be clicked only while the drawer is shown; a click toggles
  the mode exactly once and stores the new mode under \<open>'theme'\<close> when storage is
  writable, and otherwise the storage exception unmounts the application, leaving the
  browser as it was.
\<close>

theorem theme_switch_event:
  "handle_event b s Theme_switch =
     (if \<not> max_width_768 b \<or> drawer_open (main s)
      then Some (if storage_access b = Storage_ok
                 then (Mounted (s\<lparr>mode := other_mode (mode s)\<rparr>),
                       b\<lparr>local_storage := (local_storage b)(''theme'' \<mapsto> other_mode (mode s))\<rparr>)
                 else (Crashed (if storage_access b = Storage_blocked then SecurityError
                                else QuotaExceededError), b))
      else None)"
proof (cases "\<not> max_width_768 b \<or> drawer_open (main s)")
  case True
  then have "target_effects (app_view b s) Theme_switch = Some [Enqueue Toggle_mode]"
    by (simp add: target_effects_app_view del: target_effects.simps)
  then show ?thesis
    using True by (simp add: handle_event_single apply_update_toggle)
next
  case False
  then show ?thesis
    by (simp add: handle_event_eq target_effects_app_view del: target_effects.simps)
qed

theorem theme_switch_event_witness:
  "handle_event \<lparr>local_storage = Map.empty, storage_access = Storage_ok, console = [],
       prefers_dark = False, viewport_width = 500\<rparr>
     \<lparr>mode = ''light'', main = main_initial\<rparr> Theme_switch = None"
  using theme_switch_event [of "\<lparr>local_storage = Map.empty, storage_access = Storage_ok, console = [],
       prefers_dark = False, viewport_width = 500\<rparr>" "\<lparr>mode = ''light'', main = main_initial\<rparr>"]
  by (simp add: main_initial_def max_width_768_def)

text \<open>
  C5. The theme survives a reload and nothing else does: after a successful click on the
  theme switch, reloading the page mounts the application with the mode the click
  produced, the door locked, the home page and the drawer closed.
\<close>

theorem reload_keeps_theme:
  assumes "handle_event b s Theme_switch = Some (Mounted s', b')"
  shows "env_step (Mounted s', b') Reload = (Mounted \<lparr>mode = mode s', main = main_initial\<rparr>, b')"
proof -
  from assms have vis: "\<not> max_width_768 b \<or> drawer_open (main s)"
    by (auto simp: handle_event_eq target_effects_app_view simp del: target_effects.simps
        split: if_splits)
  then have "target_effects (app_view b s) Theme_switch = Some [Enqueue Toggle_mode]"
    by (simp add: target_effects_app_view del: target_effects.simps)
  with assms have "apply_update (s, b) Toggle_mode = Inr (s', b')"
    by (auto simp: handle_event_single split: sum.splits)
  then have ok: "storage_access b = Storage_ok" and s': "s' = s\<lparr>mode := other_mode (mode s)\<rparr>"
    and b': "b' = b\<lparr>local_storage := (local_storage b)(''theme'' \<mapsto> other_mode (mode s))\<rparr>"
    by (simp_all add: apply_update_toggle split: if_splits)
  have "initial_mode b' = Inr (mode s')"
    using ok by (simp add: initial_mode_Inr s' b' other_mode_def)
  then show ?thesis by (simp add: app_init_def)
qed

theorem reload_keeps_theme_witness:
  "env_step (Mounted \<lparr>mode = ''dark'', main = main_initial\<lparr>is_door_locked := False\<rparr>\<rparr>,
             \<lparr>local_storage = [''theme'' \<mapsto> ''dark''], storage_access = Storage_ok, console = [],
              prefers_dark = False, viewport_width = 1024\<rparr>) Reload =
   (Mounted \<lparr>mode = ''dark'', main = main_initial\<rparr>,
    \<lparr>local_storage = [''theme'' \<mapsto> ''dark''], storage_access = Storage_ok, console = [],
     prefers_dark = False, viewport_width = 1024\<rparr>)"
proof -
  let ?s = "\<lparr>mode = ''light'', main = main_initial\<lparr>is_door_locked := False\<rparr>\<rparr>"
  let ?b = "\<lparr>local_storage = Map.empty, storage_access = Storage_ok, console = [],
             prefers_dark = False, viewport_width = 1024\<rparr>"
  have h: "handle_event ?b ?s Theme_switch =
    Some (Mounted \<lparr>mode = ''dark'', main = main_initial\<lparr>is_door_locked := False\<rparr>\<rparr>,
      \<lparr>local_storage = [''theme'' \<mapsto> ''dark''], storage_access = Storage_ok, console = [],
       prefers_dark = False, viewport_width = 1024\<rparr>)"
    by (simp add: handle_event_single target_effects_app_view apply_update_toggle
        max_width_768_def other_mode_def del: target_effects.simps)
  show ?thesis using reload_keeps_theme [OF h] by simp
qed

text \<open>
  C6. Navigation: an item can be clicked only while the drawer is shown; a click sets
  \<open>currentPage\<close> to the item's id, closes the drawer on a narrow screen, leaves it as
  it was on a wide one, and touches neither the lock, the mode nor the browser.
\<close>

theorem nav_item_event:
  "handle_event b s (Nav_item i) =
     (if (\<not> max_width_768 b \<or> drawer_open (main s)) \<and> i \<in> set nav_ids
      then Some (Mounted (s\<lparr>main := (main s)\<lparr>current_page := i,
                   drawer_open := (drawer_open (main s) \<and> \<not> max_width_768 b)\<rparr>\<rparr>), b)
      else None)"
  by (simp add: handle_event_eq target_effects_nav_item flush_def del: target_effects.simps)

theorem nav_item_event_witness:
  "handle_event \<lparr>local_storage = Map.empty, storage_access = Storage_ok, console = [],
       prefers_dark = False, viewport_width = 500\<rparr>
     (\<lparr>mode = ''light'', main = main_initial\<lparr>drawer_open := True\<rparr>\<rparr>) (Nav_item ''instructions'') =
   Some (Mounted \<lparr>mode = ''light'', main = main_initial\<lparr>current_page := ''instructions''\<rparr>\<rparr>,
         \<lparr>local_storage = Map.empty, storage_access = Storage_ok, console = [],
       prefers_dark = False, viewport_width = 500\<rparr>)"
  using nav_item_event [of "\<lparr>local_storage = Map.empty, storage_access = Storage_ok, console = [],
       prefers_dark = False, viewport_width = 500\<rparr>"
      "\<lparr>mode = ''light'', main = main_initial\<lparr>drawer_open := True\<rparr>\<rparr>" "''instructions''"]
  by (simp add: main_initial_def max_width_768_def nav_ids_eq)

text \<open>
  C7. The menu button exists only on a narrow screen, where a click flips
  \<open>drawerOpen\<close> and changes nothing else.
\<close>

theorem menu_button_event:
  "handle_event b s Menu_button =
     (if max_width_768 b
      then Some (Mounted (s\<lparr>main := (main s)\<lparr>drawer_open := \<not> drawer_open (main s)\<rparr>\<rparr>), b)
      else None)"
  by (simp add: handle_event_eq target_effects_app_view flush_def del: target_effects.simps)

theorem menu_button_event_witness:
  "handle_event \<lparr>local_storage = Map.empty, storage_access = Storage_ok, console = [],
       prefers_dark = False, viewport_width = 500\<rparr>
     \<lparr>mode = ''light'', main = main_initial\<rparr> Menu_button =
   Some (Mounted \<lparr>mode = ''light'', main = main_initial\<lparr>drawer_open := True\<rparr>\<rparr>,
         \<lparr>local_storage = Map.empty, storage_access = Storage_ok, console = [],
       prefers_dark = False, viewport_width = 500\<rparr>)"
  using menu_button_event [of "\<lparr>local_storage = Map.empty, storage_access = Storage_ok, console = [],
       prefers_dark = False, viewport_width = 500\<rparr>" "\<lparr>mode = ''light'', main = main_initial\<rparr>"]
  by (simp add: main_initial_def max_width_768_def)

text \<open>
  C8. The theme item's label names the mode a click will switch to: for either mode it
  reads \<open>Dark Mode\<close> exactly when toggling leads to \<open>'dark'\<close>, and the switch is on
  exactly in dark mode.
\<close>

theorem theme_label_names_next_mode:
  assumes "valid_mode (mode s)"
  shows "dc_theme_label (dv_content (mv_drawer (app_view b s))) =
           (if other_mode (mode s) = ''dark'' then ''Dark Mode'' else ''Light Mode'') \<and>
         dc_switch_checked (dv_content (mv_drawer (app_view b s))) = (mode s = ''dark'')"
  using assms
  by (auto simp: app_view_def drawer_content_def theme_value_def valid_mode_def other_mode_def)

theorem theme_label_names_next_mode_witness:
  "dc_theme_label (dv_content (mv_drawer (app_view
      \<lparr>local_storage = Map.empty, storage_access = Storage_ok, console = [],
       prefers_dark = False, viewport_width = 1024\<rparr>
      \<lparr>mode = ''light'', main = main_initial\<rparr>))) = ''Dark Mode''"
  using theme_label_names_next_mode [of "\<lparr>mode = ''light'', main = main_initial\<rparr>"
      "\<lparr>local_storage = Map.empty, storage_access = Storage_ok, console = [],
        prefers_dark = False, viewport_width = 1024\<rparr>"]
  by (simp add: valid_mode_def other_mode_def)

text \<open>
  C9. Repeated clicks on the lock button: \<open>n\<close> clicks on the home page leave the door
  locked exactly when it was locked and \<open>n\<close> is even, and log one message per click, the
  \<open>k\<close>-th naming the state the \<open>k\<close>-th click produced.
\<close>

theorem lock_clicks_parity:
  assumes "current_page (main s) = ''home''"
  shows "run (Mounted s, b) (replicate n (User Lock_button)) =
           (Mounted (s\<lparr>main := (main s)\<lparr>is_door_locked := (is_door_locked (main s) = even n)\<rparr>\<rparr>),
            b\<lparr>console := console b @
              map (\<lambda>k. lock_message (is_door_locked (main s) = even k)) [1..<Suc n]\<rparr>)"
proof (induction n)
  case 0
  then show ?case by simp
next
  case (Suc n)
  have "replicate (Suc n) (User Lock_button) = replicate n (User Lock_button) @ [User Lock_button]"
    by (simp add: replicate_append_same)
  then show ?case
    using assms Suc.IH by (simp add: run_append handle_event_lock_home)
qed

theorem lock_clicks_parity_witness:
  "run (Mounted \<lparr>mode = ''light'', main = main_initial\<rparr>,
        \<lparr>local_storage = Map.empty, storage_access = Storage_ok, console = [],
         prefers_dark = False, viewport_width = 1024\<rparr>)
       (replicate 3 (User Lock_button)) =
   (Mounted \<lparr>mode = ''light'', main = main_initial\<lparr>is_door_locked := False\<rparr>\<rparr>,
    \<lparr>local_storage = Map.empty, storage_access = Storage_ok,
     console = [''Unlocking door...'', ''Locking door...'', ''Unlocking door...''],
     prefers_dark = False, viewport_width = 1024\<rparr>)"
  using lock_clicks_parity [of "\<lparr>mode = ''light'', main = main_initial\<rparr>"
      "\<lparr>local_storage = Map.empty, storage_access = Storage_ok, console = [],
        prefers_dark = False, viewport_width = 1024\<rparr>" 3]
  by (simp add: main_initial_def lock_message_def upt_rec)

text \<open>
  C23. The lock is never out of reach: from any mounted state, at most three clicks (open
  the mobile menu if needed, choose \<open>Door Control\<close> if needed, press the button) flip the
  lock, leaving exactly the one console message of the press.
\<close>

theorem lock_within_three_clicks:
  "\<exists>ts s'. length ts \<le> 3 \<and>
     run (Mounted s, b) (map User ts) =
       (Mounted s', b\<lparr>console := console b @ [lock_message (\<not> is_door_locked (main s))]\<rparr>) \<and>
     is_door_locked (main s') = (\<not> is_door_locked (main s))"
proof -
  have home: "''home'' \<in> set nav_ids" by (simp add: nav_ids_eq)
  show ?thesis
  proof (cases "current_page (main s) = ''home''")
    case True
    then show ?thesis
      by (intro exI [of _ "[Lock_button]"]) (simp add: handle_event_lock_home)
  next
    case False
    show ?thesis
    proof (cases "\<not> max_width_768 b \<or> drawer_open (main s)")
      case True
      with home show ?thesis
        by (intro exI [of _ "[Nav_item ''home'', Lock_button]"])
           (simp add: handle_event_nav_visible handle_event_lock_home)
    next
      case False
      with home show ?thesis
        by (intro exI [of _ "[Menu_button, Nav_item ''home'', Lock_button]"])
           (simp add: handle_event_menu_mobile handle_event_nav_visible handle_event_lock_home)
    qed
  qed
qed

text \<open>
  C24. Why each click needs its own flush: if two clicks were handled in one batch against
  the same render, two presses of the lock button would both enqueue the value computed
  from the render (\<open>!isDoorLocked\<close>) and flip the lock only once, while two clicks on the
  theme switch enqueue the functional updater twice and cancel out, writing both modes in
  turn to storage.
\<close>

theorem batched_clicks:
  assumes "current_page (main s) = ''home''" and "\<not> max_width_768 b"
    and "storage_access b = Storage_ok" and "valid_mode (mode s)"
  shows "handle_batch b s [Lock_button, Lock_button] =
           Some (Mounted (s\<lparr>main := (main s)\<lparr>is_door_locked := \<not> is_door_locked (main s)\<rparr>\<rparr>),
                 b\<lparr>console := console b @ replicate 2 (lock_message (\<not> is_door_locked (main s)))\<rparr>) \<and>
         handle_batch b s [Theme_switch, Theme_switch] =
           Some (Mounted s, b\<lparr>local_storage := (local_storage b)(''theme'' \<mapsto> mode s)\<rparr>)"
  using assms
  by (simp add: handle_batch_def target_effects_app_view toggle_door_lock_effects run_effects_eq
      flush_def apply_update_toggle numeral_2_eq_2 del: target_effects.simps)

theorem batched_clicks_witness:
  "handle_batch (\<lparr>local_storage = Map.empty, storage_access = Storage_ok, console = [],
       prefers_dark = False, viewport_width = 500\<rparr>\<lparr>viewport_width := 1024\<rparr>) \<lparr>mode = ''light'', main = main_initial\<rparr>
     [Theme_switch, Theme_switch] =
   Some (Mounted \<lparr>mode = ''light'', main = main_initial\<rparr>,
         (\<lparr>local_storage = Map.empty, storage_access = Storage_ok, console = [],
       prefers_dark = False, viewport_width = 500\<rparr>\<lparr>viewport_width := 1024, local_storage := [''theme'' \<mapsto> ''light'']\<rparr>))"
  using batched_clicks [of "\<lparr>mode = ''light'', main = main_initial\<rparr>"
      "\<lparr>local_storage = Map.empty, storage_access = Storage_ok, console = [],
       prefers_dark = False, viewport_width = 500\<rparr>\<lparr>viewport_width := 1024\<rparr>"]
  by (simp add: main_initial_def max_width_768_def valid_mode_def)

text \<open>
  C26. Once in sync, the stored preference follows the mode: if the mode is the value
  stored under \<open>'theme'\<close> (as after any successful toggle), it stays so through every
  click, crash, reload, resize, change of system preference or storage permission, and
  every write to other keys; only another page writing \<open>'theme'\<close> breaks it.
\<close>

theorem synced_run:
  assumes "synced c" and "\<forall>act \<in> set as. \<not> foreign_theme_write act"
  shows "synced (run c as)"
  using assms
proof (induction c as rule: run.induct)
  case (1 c)
  then show ?case by simp
next
  case (2 s b t as)
  have "synced (case handle_event b s t of None \<Rightarrow> (Mounted s, b) | Some c' \<Rightarrow> c')"
  proof (cases "handle_event b s t")
    case None
    with "2.prems"(1) show ?thesis by simp
  next
    case (Some c')
    from "2.prems"(1) Some have "synced c'" by (rule synced_handle_event)
    with Some show ?thesis by simp
  qed
  with "2.IH" "2.prems"(2) show ?case by simp
next
  case (3 e b t as)
  then show ?case by simp
next
  case (4 c e as)
  then show ?case by (simp add: synced_env_step)
qed

theorem synced_run_witness:
  "synced (run (Mounted \<lparr>mode = ''dark'', main = main_initial\<rparr>,
                 \<lparr>local_storage = Map.empty, storage_access = Storage_ok, console = [],
       prefers_dark = False, viewport_width = 1024\<rparr>\<lparr>local_storage := [''theme'' \<mapsto> ''dark'']\<rparr>)
              [Env (Set_storage_access Storage_full), User Theme_switch, Env (Set_storage_access Storage_ok),
               Env Reload, User Theme_switch])"
  using synced_run [of "(Mounted \<lparr>mode = ''dark'', main = main_initial\<rparr>,
                 \<lparr>local_storage = Map.empty, storage_access = Storage_ok, console = [],
       prefers_dark = False, viewport_width = 1024\<rparr>\<lparr>local_storage := [''theme'' \<mapsto> ''dark'']\<rparr>)"
      "[Env (Set_storage_access Storage_full), User Theme_switch, Env (Set_storage_access Storage_ok),
        Env Reload, User Theme_switch]"]
  by (simp add: valid_mode_def)

end
