(* ===== verification/Spec2Isabelle.thy ===== *)
theory Spec2Isabelle
  imports App
begin

text \<open>
  \<^bold>\<open>A verification model of the smart-lock web interface.\<close>

  \<^bold>\<open>The program.\<close> Two React source files. \<^verbatim>\<open>src/src/ThemeContext.js\<close> defines
  \<open>ThemeProvider\<close>, which holds the colour mode (the string \<open>'light'\<close> or \<open>'dark'\<close>),
  initialises it from the \<open>'theme'\<close> key of \<open>localStorage\<close> or, when nothing usable is
  stored, from the \<open>prefers-color-scheme\<close> media query, publishes \<open>isDarkMode\<close> and
  \<open>toggleTheme\<close> through a context, persists every toggle to \<open>localStorage\<close>, and derives a
  MUI theme from the mode. \<^verbatim>\<open>src/src/App.js\<close> defines \<open>NavigationDrawer\<close> (two navigation
  items and a theme toggle, a permanent drawer on wide screens and a temporary one on
  screens at most 768 pixels wide), \<open>MainContent\<close> (the lock state \<open>isDoorLocked\<close>, the
  page \<open>currentPage\<close>, the flag \<open>drawerOpen\<close>; the lock button, whose handler flips the
  lock and logs a message standing in for a device call; the instructions page; the mobile
  app bar) and \<open>App\<close>, which puts \<open>MainContent\<close> inside \<open>ThemeProvider\<close>. The components
  interact through props (setters passed to the drawer), the theme context (consumed by the
  drawer and by \<open>MainContent\<close>), React's update queue (setters enqueue, the queue is applied
  after the handlers of an event ran) and the browser (storage, console, media queries).

  \<^bold>\<open>The library.\<close>
  \<^item> \<^theory_text>\<open>Prelude\<close>: exceptions as \<open>'e + 'a\<close> with \<open>sbind\<close>, the exception-aware fold
    \<open>sfold\<close> and its invariant rule, JavaScript falsiness of \<open>string | null\<close>.
  \<^item> \<^theory_text>\<open>Browser\<close>: the environment, not repository code: \<open>localStorage\<close>
    (\<open>get_item\<close>, \<open>set_item\<close>, throwing \<open>SecurityError\<close> when blocked and
    \<open>QuotaExceededError\<close> when full), \<open>console_log\<close>, the 768-pixel media query, and
    handler effects (\<open>Enqueue\<close> an update, \<open>Log\<close> a line) with DOM bubbling cut by
    \<open>stopPropagation\<close> (\<open>bubble\<close>).
  \<^item> \<^theory_text>\<open>Colour\<close>: how the browser reads the theme's colour strings: \<open>#rrggbb\<close>
    parsed into three \<open>8 word\<close> channels (\<open>parse_hex_colour\<close>), the lower-case printer
    with its round trip (\<open>parse_print_hex_colour\<close>), and the BT.601 luma, bounded by
    255000 (\<open>luma_le\<close>). Environment, not repository code.
  \<^item> \<^theory_text>\<open>Theme\<close> (ThemeContext.js): \<open>initial_mode\<close> (lines 9--14),
    \<open>toggle_updater\<close> (16--22), \<open>create_theme\<close> with the records \<open>palette\<close> and
    \<open>style_overrides\<close> (24--79), \<open>theme_value\<close> (81--87). Lemmas: the updater flips a
    valid mode and stores it (C15), reload round trip (C16), the initialiser's branches
    (C17, C18), uncaught storage errors (C19), the idempotence of the updater's storage
    write under React's double invocation of updaters (C22), and readable text on every
    background in both modes (C25).
  \<^item> \<^theory_text>\<open>Drawer\<close> (App.js 22--140): \<open>nav_items\<close>, \<open>render_nav_item\<close>,
    \<open>drawer_content\<close>, \<open>navigation_drawer\<close>, polymorphic in the update type \<open>'u\<close> the
    parent's setters produce; \<open>switch_click_effects\<close> is the event path of a click on the
    switch. Lemmas: one toggle per switch click (C11), at most one highlighted item (C12),
    visibility of the two drawer variants (C13).
  \<^item> \<^theory_text>\<open>Main_Content\<close> (App.js 143--382): \<open>main_state\<close>, \<open>main_initial\<close>,
    \<open>main_update\<close> and \<open>apply_main_update\<close> (the three \<open>useState\<close> setters),
    \<open>toggle_door_lock\<close>, \<open>render_home_page\<close>, \<open>render_instructions_page\<close>,
    \<open>main_content\<close>. Lemmas: the home page shows one lock state throughout (C14), the
    button does what its hint says (C20), the mobile title against the highlighted label
    (C21).
  \<^item> \<^theory_text>\<open>App\<close> (App.js 384--390 and the runtime around it): the application state
    \<open>ui_state\<close> (provider mode and content state), the update queue (\<open>apply_update\<close>,
    \<open>flush\<close>), \<open>app_view\<close>, the clickable targets and their handlers in the rendered
    tree (\<open>target_effects\<close>), \<open>handle_event\<close>, the environment's events \<open>env_step\<close>, the
    step relation \<open>app_step\<close>, \<open>reachable\<close>, and an executable \<open>run\<close> over action lists.
    Lemmas: the invariant \<open>ui_inv\<close> in every reachable state (C1), one page shown and
    highlighted (C2), each target's behaviour on every branch (C3, C4, C6, C7), theme
    persistence across reload (C5), the theme label (C8), lock-click parity (C9), the
    lock never more than three clicks away (C23), what batching two clicks against one
    render would do (C24), and the stored preference staying equal to the mode through
    every action but a foreign write to \<open>'theme'\<close> (C26).
  \<^item> This theory: the abstract machine of the specification's data model
    (\<open>abs_state\<close>, \<open>abs_step\<close>), the abstraction
    \<open>abs_of\<close> and the abstract events of each click \<open>abs_events\<close>. Lemmas: each click
    that keeps the application mounted is simulated by its abstract events (C10).

  \<^bold>\<open>Modelling choices.\<close> Strings stay strings, as in the JavaScript: the mode and the page
  are \<open>js_string\<close>, and that they only take the two values the specification names is a
  theorem (C1), not a typing assumption. A rendered tree is a record of the attributes the
  code computes (labels, colours, icons, selection, visibility) together with the handlers
  it installs, so an event can only hit an element the current state renders. Each user
  event runs its handlers against the state of the render that installed them, logs at once,
  and then applies the enqueued updates in order; the first exception (a storage write in
  the theme updater) unmounts the application (\<open>Crashed\<close>), as an error thrown while React
  processes updates does without an error boundary. No loop of the program is unbounded, so
  no fuel is needed: every definition is structural or non-recursive and executable, and
  the witnesses evaluate by \<open>simp\<close>.

  \<^bold>\<open>Not modelled.\<close> Styling that does not depend on state (sizes, spacing, transitions),
  MUI's internal rendering and theme merging, the icon components themselves, React's
  reconciliation and scheduling beyond "handlers first, then the update queue, per
  event", and the console's formatting. The lock action is a console message in the code
  and stays one here: there is no device protocol to model. Also left out: the first render
  of \<open>useMediaQuery\<close>, which reports no match until its effect has run; closing the
  temporary drawer with the Escape key (MUI calls the same \<open>onClose\<close> as for the
  backdrop); keyboard focus; and \<open>isDarkMode\<close> read but unused by \<open>MainContent\<close>
  (App.js line 149).

  \<^bold>\<open>Plan.\<close> Done: every component of the two files, their composition, the environment
  they call, and the properties above. Next: lift the per-click simulation (C10) to traces
  of the executable \<open>run\<close>; add the Escape-key close and the first render of the media
  query as events; state the static instructions page against the specification's
  description of the two pages.
\<close>

subsection \<open>The specification's abstract machine\<close>

text \<open>
  Section 3 of the specification: the lock is a boolean, default locked; the theme is
  one of light and dark; navigation is one of two pages plus the drawer flag. Section 4:
  the operations toggle a boolean, toggle the theme, and set the page or the flag.
\<close>

datatype abs_page = Home | Instructions

datatype abs_mode = Light | Dark

record abs_state =
  a_locked :: bool
  a_mode :: abs_mode
  a_page :: abs_page
  a_drawer :: bool

datatype abs_event = Toggle_lock | Toggle_theme | Go abs_page | Set_drawer bool

fun abs_step :: "abs_state \<Rightarrow> abs_event \<Rightarrow> abs_state" where
  "abs_step a Toggle_lock = a\<lparr>a_locked := \<not> a_locked a\<rparr>"
| "abs_step a Toggle_theme = a\<lparr>a_mode := (case a_mode a of Light \<Rightarrow> Dark | Dark \<Rightarrow> Light)\<rparr>"
| "abs_step a (Go p) = a\<lparr>a_page := p\<rparr>"
| "abs_step a (Set_drawer d) = a\<lparr>a_drawer := d\<rparr>"

definition abs_run :: "abs_event list \<Rightarrow> abs_state \<Rightarrow> abs_state" where
  "abs_run es a = fold (\<lambda>e a. abs_step a e) es a"

text \<open>The abstraction of a concrete state, and the abstract events a concrete click is.\<close>

definition abs_of :: "ui_state \<Rightarrow> abs_state" where
  "abs_of s =
     \<lparr>a_locked = is_door_locked (main s),
      a_mode = (if mode s = ''dark'' then Dark else Light),
      a_page = (if current_page (main s) = ''home'' then Home else Instructions),
      a_drawer = drawer_open (main s)\<rparr>"

fun abs_events :: "browser \<Rightarrow> ui_state \<Rightarrow> target \<Rightarrow> abs_event list" where
  "abs_events b s Lock_button = [Toggle_lock]"
| "abs_events b s (Nav_item i) =
     Go (if i = ''home'' then Home else Instructions) #
     (if max_width_768 b then [Set_drawer False] else [])"
| "abs_events b s Theme_item = [Toggle_theme]"
| "abs_events b s Theme_switch = [Toggle_theme]"
| "abs_events b s Menu_button = [Set_drawer (\<not> drawer_open (main s))]"
| "abs_events b s Drawer_backdrop = [Set_drawer False]"

subsection \<open>Lemmas\<close>

lemma abs_run_simps [simp]:
  "abs_run [] a = a"
  "abs_run (e # es) a = abs_run es (abs_step a e)"
  by (simp_all add: abs_run_def)

lemma handle_event_cases:
  assumes "handle_event b s t = Some (Mounted s', b')"
  obtains es where "target_effects (app_view b s) t = Some es"
    and "flush (enqueued es) (s, b\<lparr>console := console b @ logged es\<rparr>) = Inr (s', b')"
  using assms by (auto simp: handle_event_eq split: option.splits sum.splits)

lemma handle_event_abs:
  assumes "ui_inv s" and "handle_event b s t = Some (Mounted s', b')"
  shows "abs_of s' = abs_run (abs_events b s t) (abs_of s)"
  using assms(2)
proof (rule handle_event_cases)
  fix es
  assume te: "target_effects (app_view b s) t = Some es"
    and fl: "flush (enqueued es) (s, b\<lparr>console := console b @ logged es\<rparr>) = Inr (s', b')"
  from assms(1) have v: "mode s = ''light'' \<or> mode s = ''dark''"
    by (simp add: ui_inv_def valid_mode_def)
  show ?thesis
  proof (cases t)
    case (Nav_item i)
    with te have i: "i \<in> set nav_ids"
      and es: "es = Enqueue (Main_update (Set_current_page i)) #
                 (if max_width_768 b then [Enqueue (Main_update (Set_drawer_open False))] else [])"
      by (simp_all add: target_effects_nav_item del: target_effects.simps split: if_splits)
    from fl es have "s' = s\<lparr>main := (main s)\<lparr>current_page := i,
        drawer_open := (drawer_open (main s) \<and> \<not> max_width_768 b)\<rparr>\<rparr>"
      by (cases "max_width_768 b") (simp_all add: flush_def)
    with i Nav_item show ?thesis by (auto simp: abs_of_def nav_ids_eq)
  next
    case Lock_button
    with te have "es = toggle_door_lock Main_update (main s)"
      by (simp add: target_effects_app_view del: target_effects.simps split: if_splits)
    with fl have "s' = s\<lparr>main := (main s)\<lparr>is_door_locked := \<not> is_door_locked (main s)\<rparr>\<rparr>"
      by (simp add: flush_def toggle_door_lock_effects)
    with Lock_button show ?thesis by (simp add: abs_of_def)
  next
    case Theme_item
    with te have "es = [Enqueue Toggle_mode]"
      by (simp add: target_effects_app_view del: target_effects.simps split: if_splits)
    with fl v Theme_item show ?thesis
      by (auto simp: flush_def apply_update_toggle abs_of_def other_mode_def split: if_splits)
  next
    case Theme_switch
    with te have "es = [Enqueue Toggle_mode]"
      by (simp add: target_effects_app_view del: target_effects.simps split: if_splits)
    with fl v Theme_switch show ?thesis
      by (auto simp: flush_def apply_update_toggle abs_of_def other_mode_def split: if_splits)
  next
    case Menu_button
    with te have "es = [Enqueue (Main_update (Set_drawer_open (\<not> drawer_open (main s))))]"
      by (simp add: target_effects_app_view del: target_effects.simps split: if_splits)
    with fl Menu_button show ?thesis
      by (auto simp: flush_def abs_of_def)
  next
    case Drawer_backdrop
    with te have "es = [Enqueue (Main_update (Set_drawer_open False))]"
      by (simp add: target_effects_app_view del: target_effects.simps split: if_splits)
    with fl Drawer_backdrop show ?thesis
      by (auto simp: flush_def abs_of_def)
  qed
qed

subsection \<open>Refinement\<close>

text \<open>
  C10. The code implements the specification's operations: from a well-formed state, a
  click that leaves the application mounted changes the abstract state exactly as the
  abstract events of that click do (a lock toggle, a theme toggle, a page change followed,
  on a narrow screen, by closing the drawer, or a change of the drawer flag).
\<close>

theorem handle_event_refines:
  assumes "ui_inv s" and "handle_event b s t = Some (Mounted s', b')"
  shows "abs_of s' = abs_run (abs_events b s t) (abs_of s)"
  using assms by (rule handle_event_abs)

theorem handle_event_refines_witness:
  "abs_of \<lparr>mode = ''light'', main = main_initial\<lparr>current_page := ''instructions''\<rparr>\<rparr> =
   abs_run (abs_events
      \<lparr>local_storage = Map.empty, storage_access = Storage_ok, console = [],
       prefers_dark = False, viewport_width = 1024\<rparr>
      \<lparr>mode = ''light'', main = main_initial\<rparr> (Nav_item ''instructions''))
     (abs_of \<lparr>mode = ''light'', main = main_initial\<rparr>)"
proof -
  let ?b = "\<lparr>local_storage = Map.empty, storage_access = Storage_ok, console = [],
             prefers_dark = False, viewport_width = 1024\<rparr>"
  let ?s = "\<lparr>mode = ''light'', main = main_initial\<rparr>"
  have inv: "ui_inv ?s"
    by (simp add: ui_inv_def valid_mode_def main_initial_def nav_ids_eq)
  have h: "handle_event ?b ?s (Nav_item ''instructions'') =
      Some (Mounted \<lparr>mode = ''light'', main = main_initial\<lparr>current_page := ''instructions''\<rparr>\<rparr>, ?b)"
    by (simp add: handle_event_eq target_effects_nav_item flush_def nav_ids_eq max_width_768_def
        main_initial_def del: target_effects.simps)
  show ?thesis by (rule handle_event_refines [OF inv h])
qed


end
